theory Spec2Isabelle
  imports Complex_Main
begin

section \<open>Data model shared by the conversion routines\<close>

text \<open>
  The status enumeration of the library. The declaring header is not part of the
  sources at hand; the constructors are the statuses the routines below return,
  together with the two others the enumeration has.
\<close>

datatype rocsparse_status =
    rocsparse_status_success
  | rocsparse_status_invalid_handle
  | rocsparse_status_not_implemented
  | rocsparse_status_invalid_pointer
  | rocsparse_status_invalid_size
  | rocsparse_status_memory_error
  | rocsparse_status_internal_error
  | rocsparse_status_invalid_value
  | rocsparse_status_arch_mismatch
  | rocsparse_status_zero_pivot

datatype rocsparse_pointer_mode = rocsparse_pointer_mode_host | rocsparse_pointer_mode_device

datatype rocsparse_matrix_type =
    rocsparse_matrix_type_general
  | rocsparse_matrix_type_symmetric
  | rocsparse_matrix_type_hermitian
  | rocsparse_matrix_type_triangular

datatype rocsparse_index_base = rocsparse_index_base_zero | rocsparse_index_base_one

text \<open>
  A direction is a C enumeration: any integer can be passed for it, and only two
  values are directions.
\<close>

type_synonym rocsparse_direction = int

definition rocsparse_direction_row :: rocsparse_direction where
  "rocsparse_direction_row = 0"

definition rocsparse_direction_column :: rocsparse_direction where
  "rocsparse_direction_column = 1"

record rocsparse_mat_descr =
  descr_type :: rocsparse_matrix_type
  descr_base :: rocsparse_index_base

text \<open>
  The fields of the handle that the routines read. \<open>buffer_size\<close> is the capacity in
  bytes of the handle's scratch buffer.
\<close>

record rocsparse_handle =
  pointer_mode :: rocsparse_pointer_mode
  wavefront_size :: int
  buffer_size :: nat

text \<open>
  A pointer argument is \<open>None\<close> (the null pointer) or \<open>Some\<close> of what it points to:
  the contents of an array, or the value of a scalar. A routine returns the contents
  after the call. Reading or writing outside an array, and reading through a null
  pointer, is undefined behaviour in the source; the embedding reports it as a fault
  instead of a value.
\<close>

datatype fault = NullDereference | OutOfBounds

definition index_base_value :: "rocsparse_index_base \<Rightarrow> int" where
  "index_base_value b = (case b of rocsparse_index_base_zero \<Rightarrow> 0 | rocsparse_index_base_one \<Rightarrow> 1)"

subsection \<open>The arithmetic of \<open>rocsparse_int\<close>\<close>

text \<open>
  \<open>rocsparse_int\<close> is a 32-bit signed integer. Its values are modelled as \<open>int\<close>;
  \<open>int32\<close> is the wrap-around of a result into the 32-bit range and stands wherever
  the source adds up quantities that can leave it. Division truncates towards zero.
\<close>

definition int32 :: "int \<Rightarrow> int" where
  "int32 x = (x + 2147483648) mod 4294967296 - 2147483648"

definition c_div :: "int \<Rightarrow> int \<Rightarrow> int" where
  "c_div a b = sgn a * sgn b * (\<bar>a\<bar> div \<bar>b\<bar>)"

subsection \<open>The device runtime\<close>

text \<open>
  Every call of the device runtime (and of the reduction primitive built on it)
  returns a \<open>hipError_t\<close>. The source wraps these calls in \<open>RETURN_IF_HIP_ERROR\<close>:
  a result other than \<open>hipSuccess\<close> ends the routine with the status that
  \<open>get_rocsparse_status_for_hip_status\<close> translates it to. Neither the runtime nor
  the translation is in the sources, so both are parameters: \<open>hip_result\<close> gives
  what the runtime answers at each call site, \<open>get_rocsparse_status_for_hip_status\<close>
  is the translation, and \<open>temp_storage_size_bytes\<close> is what the reduction primitive
  answers when asked for the size of its temporary storage.
\<close>

datatype hipError_t =
    hipSuccess
  | hipErrorInvalidValue
  | hipErrorOutOfMemory
  | hipErrorInvalidDevicePointer
  | hipErrorLaunchFailure

datatype hip_call =
    hipMemsetAsync_total
  | hipMemcpy_nnz_A
  | hipMalloc_total
  | rocprim_reduce_size
  | hipMalloc_temp
  | rocprim_reduce
  | hipMemcpyAsync_total
  | hipMemcpy_total
  | hipFree_total
  | hipFree_temp

record device_runtime =
  hip_result :: "hip_call \<Rightarrow> hipError_t"
  get_rocsparse_status_for_hip_status :: "hipError_t \<Rightarrow> rocsparse_status"
  temp_storage_size_bytes :: nat

definition hip_failed :: "device_runtime \<Rightarrow> hip_call \<Rightarrow> bool" where
  "hip_failed rt c = (hip_result rt c \<noteq> hipSuccess)"

definition hip_status :: "device_runtime \<Rightarrow> hip_call \<Rightarrow> rocsparse_status" where
  "hip_status rt c = get_rocsparse_status_for_hip_status rt (hip_result rt c)"

text \<open>
  The translation is faithful when it sends no error of the runtime to the success
  status: then a routine that returns success has had every checked call of the
  runtime succeed.
\<close>

definition translation_faithful :: "device_runtime \<Rightarrow> bool" where
  "translation_faithful rt =
     (\<forall>c. hip_failed rt c \<longrightarrow> hip_status rt c \<noteq> rocsparse_status_success)"

text \<open>
  \<open>rocprim::reduce\<close> with \<open>rocprim::plus<rocsparse_int>\<close>: the sum of the
  entries it is given, in 32-bit arithmetic.
\<close>

definition rocprim_reduce_plus :: "int list \<Rightarrow> int" where
  "rocprim_reduce_plus xs = int32 (sum_list xs)"

subsection \<open>What a routine issues\<close>

text \<open>
  The template arguments and the launch dimensions of one launch of
  \<open>nnz_compress_kernel\<close>.
\<close>

record nnz_compress_launch =
  BLOCK_SIZE :: int
  SEGMENTS_PER_BLOCK :: int
  SEGMENT_SIZE :: int
  WF_SIZE :: int
  grid_size :: int

text \<open>
  The operations a routine issues, in order: a call of the runtime, a store through a
  host pointer, a kern launch, the two-dimensional zero fill of the dense converter.
\<close>

datatype event =
    runtime hip_call
  | host_store
  | launch_nnz_compress_kernel nnz_compress_launch
  | call_nnz_template
  | hipMemset2DAsync int int int
  | launch_csx2dense_kernel rocsparse_direction int int

text \<open>
  The outcome of a counting routine: its status, the per-row (or per-column) array
  and the total as they are after the call, and what it issued.
\<close>

record nnz_outcome =
  nnz_status :: rocsparse_status
  nnz_per_row_out :: "int list option"
  nnz_total_out :: "int option"
  issued :: "event list"

definition returned ::
  "rocsparse_status \<Rightarrow> int list option \<Rightarrow> int option \<Rightarrow> event list \<Rightarrow> fault + nnz_outcome" where
  "returned s per_row tot tr =
     Inr \<lparr>nnz_status = s, nnz_per_row_out = per_row, nnz_total_out = tot, issued = tr\<rparr>"

section \<open>nnz_compress\<close>

text \<open>
  The dispatch of \<open>rocsparse_nnz_compress_template\<close> on the wavefront size of the
  handle and on the mean number of entries per row: the launch it makes, or \<open>None\<close>
  where the source returns \<open>rocsparse_status_arch_mismatch\<close>. \<open>block_size\<close> is the
  constant 1024 of the source.
\<close>

definition block_size :: int where
  "block_size = 1024"

definition nnz_compress_variant :: "int \<Rightarrow> int \<Rightarrow> int \<Rightarrow> nnz_compress_launch" where
  "nnz_compress_variant segment wavefront m =
     (let segments_per_block = c_div block_size segment
      in \<lparr>BLOCK_SIZE = block_size,
          SEGMENTS_PER_BLOCK = segments_per_block,
          SEGMENT_SIZE = segment,
          WF_SIZE = wavefront,
          grid_size = c_div (int32 (int32 (m + segments_per_block) - 1)) segments_per_block\<rparr>)"

definition nnz_compress_dispatch :: "int \<Rightarrow> int \<Rightarrow> int \<Rightarrow> nnz_compress_launch option" where
  "nnz_compress_dispatch wavefront mean_nnz_per_row m =
     (if wavefront = 32 then
        (if mean_nnz_per_row < 4 then Some (nnz_compress_variant 2 32 m)
         else if mean_nnz_per_row < 8 then Some (nnz_compress_variant 4 32 m)
         else if mean_nnz_per_row < 16 then Some (nnz_compress_variant 8 32 m)
         else if mean_nnz_per_row < 32 then Some (nnz_compress_variant 16 32 m)
         else Some (nnz_compress_variant 32 32 m))
      else if wavefront = 64 then
        (if mean_nnz_per_row < 4 then Some (nnz_compress_variant 2 64 m)
         else if mean_nnz_per_row < 8 then Some (nnz_compress_variant 4 64 m)
         else if mean_nnz_per_row < 16 then Some (nnz_compress_variant 8 64 m)
         else if mean_nnz_per_row < 32 then Some (nnz_compress_variant 16 64 m)
         else if mean_nnz_per_row < 64 then Some (nnz_compress_variant 32 64 m)
         else Some (nnz_compress_variant 64 64 m))
      else None)"

text \<open>
  The kernel itself (\<open>nnz_compress_device.h\<close>) is not in the sources. It is a
  parameter: given the launch, the arguments of the launch and the per-row array, it
  gives the per-row array after the kernel has run.
\<close>

type_synonym 'a nnz_compress_kernel =
  "nnz_compress_launch \<Rightarrow> int \<Rightarrow> rocsparse_index_base \<Rightarrow> 'a list \<Rightarrow> int list \<Rightarrow> int list \<Rightarrow> 'a \<Rightarrow> int list"

text \<open>
  The last step of both counting routines: the temporary storage of the reduction is
  freed if it was allocated for this call, and the routine returns success.
\<close>

definition free_temp_and_return ::
  "device_runtime \<Rightarrow> bool \<Rightarrow> int list \<Rightarrow> int \<Rightarrow> event list \<Rightarrow> fault + nnz_outcome" where
  "free_temp_and_return rt temp_alloc per_row tot tr =
     (if temp_alloc then
        (if hip_failed rt hipFree_temp
         then returned (hip_status rt hipFree_temp) (Some per_row) (Some tot)
                (tr @ [runtime hipFree_temp])
         else returned rocsparse_status_success (Some per_row) (Some tot)
                (tr @ [runtime hipFree_temp]))
      else returned rocsparse_status_success (Some per_row) (Some tot) tr)"

text \<open>
  The end of \<open>rocsparse_nnz_compress_template\<close>, from the allocation of
  \<open>dnnz_C\<close> on: the reduction of the per-row counts into the total. In host pointer
  mode the sum goes to a device scalar allocated for it and is copied to the caller's
  scalar; in device pointer mode the reduction writes the caller's scalar itself.
\<close>

definition nnz_compress_reduce ::
  "device_runtime \<Rightarrow> rocsparse_handle \<Rightarrow> int \<Rightarrow> int list \<Rightarrow> int \<Rightarrow> event list \<Rightarrow> fault + nnz_outcome" where
  "nnz_compress_reduce rt h m per_row nnz_C tr0 =
     (let host = (pointer_mode h = rocsparse_pointer_mode_host);
          tr1 = (if host then tr0 @ [runtime hipMalloc_total] else tr0)
      in
      if host \<and> hip_failed rt hipMalloc_total
      then returned (hip_status rt hipMalloc_total) (Some per_row) (Some nnz_C) tr1
      else
      let tr2 = tr1 @ [runtime rocprim_reduce_size] in
      if hip_failed rt rocprim_reduce_size
      then returned (hip_status rt rocprim_reduce_size) (Some per_row) (Some nnz_C) tr2
      else
      let temp_alloc = \<not> (temp_storage_size_bytes rt \<le> buffer_size h);
          tr3 = (if temp_alloc then tr2 @ [runtime hipMalloc_temp] else tr2)
      in
      if temp_alloc \<and> hip_failed rt hipMalloc_temp
      then returned (hip_status rt hipMalloc_temp) (Some per_row) (Some nnz_C) tr3
      else
      let tr4 = tr3 @ [runtime rocprim_reduce] in
      if length per_row < nat m then Inl OutOfBounds
      else if hip_failed rt rocprim_reduce
      then returned (hip_status rt rocprim_reduce) (Some per_row) (Some nnz_C) tr4
      else
      let dnnz_C = rocprim_reduce_plus (take (nat m) per_row) in
      if host then
        (let tr5 = tr4 @ [runtime hipMemcpy_total] in
         if hip_failed rt hipMemcpy_total
         then returned (hip_status rt hipMemcpy_total) (Some per_row) (Some nnz_C) tr5
         else
         let tr6 = tr5 @ [runtime hipFree_total] in
         if hip_failed rt hipFree_total
         then returned (hip_status rt hipFree_total) (Some per_row) (Some dnnz_C) tr6
         else free_temp_and_return rt temp_alloc per_row dnnz_C tr6)
      else free_temp_and_return rt temp_alloc per_row dnnz_C tr4)"

text \<open>
  The part of the routine after the argument checks: the copy of the last row pointer
  to the host, the mean, the dispatch and the launch, then the reduction.
\<close>

definition nnz_compress_count ::
  "device_runtime \<Rightarrow> 'a nnz_compress_kernel \<Rightarrow> rocsparse_handle \<Rightarrow> int \<Rightarrow> rocsparse_mat_descr \<Rightarrow>
   'a list \<Rightarrow> int list \<Rightarrow> int list \<Rightarrow> int \<Rightarrow> 'a \<Rightarrow> fault + nnz_outcome" where
  "nnz_compress_count rt kern h m descr_A csr_val_A csr_row_ptr_A nnz_per_row nnz_C tol =
     (if \<not> (0 \<le> m \<and> nat m < length csr_row_ptr_A) then Inl OutOfBounds
      else if hip_failed rt hipMemcpy_nnz_A
      then returned (hip_status rt hipMemcpy_nnz_A) (Some nnz_per_row) (Some nnz_C)
             [runtime hipMemcpy_nnz_A]
      else
      let nnz_A = csr_row_ptr_A ! nat m;
          mean_nnz_per_row = c_div nnz_A m
      in
      case nnz_compress_dispatch (wavefront_size h) mean_nnz_per_row m of
        None \<Rightarrow>
          returned rocsparse_status_arch_mismatch (Some nnz_per_row) (Some nnz_C)
            [runtime hipMemcpy_nnz_A]
      | Some l \<Rightarrow>
          nnz_compress_reduce rt h m
            (kern l m (descr_base descr_A) csr_val_A csr_row_ptr_A nnz_per_row tol) nnz_C
            [runtime hipMemcpy_nnz_A, launch_nnz_compress_kernel l])"

text \<open>
  \<open>rocsparse_nnz_compress_template\<close>. The element type \<open>T\<close> of the source is the
  type variable; \<open>std_real\<close> is \<open>std::real\<close> at that type (the value itself for a
  real type, the real part for a complex one). Logging reads the arguments only and
  is left out.
\<close>

definition rocsparse_nnz_compress_template ::
  "('a::zero \<Rightarrow> real) \<Rightarrow> device_runtime \<Rightarrow> 'a nnz_compress_kernel \<Rightarrow>
   rocsparse_handle option \<Rightarrow> int \<Rightarrow> rocsparse_mat_descr option \<Rightarrow>
   'a list option \<Rightarrow> int list option \<Rightarrow> int list option \<Rightarrow> int option \<Rightarrow> 'a \<Rightarrow>
   fault + nnz_outcome" where
  "rocsparse_nnz_compress_template std_real rt kern handle m descr_A csr_val_A csr_row_ptr_A
       nnz_per_row nnz_C tol =
     (case handle of
        None \<Rightarrow> returned rocsparse_status_invalid_handle nnz_per_row nnz_C []
      | Some h \<Rightarrow>
     (case descr_A of
        None \<Rightarrow> returned rocsparse_status_invalid_pointer nnz_per_row nnz_C []
      | Some d \<Rightarrow>
      if m < 0 then returned rocsparse_status_invalid_size nnz_per_row nnz_C []
      else if std_real tol < std_real 0
      then returned rocsparse_status_invalid_value nnz_per_row nnz_C []
      else if m = 0 then
        (case nnz_C of
           None \<Rightarrow> returned rocsparse_status_success nnz_per_row nnz_C []
         | Some c \<Rightarrow>
             if pointer_mode h = rocsparse_pointer_mode_device then
               (if hip_failed rt hipMemsetAsync_total
                then returned (hip_status rt hipMemsetAsync_total) nnz_per_row nnz_C
                       [runtime hipMemsetAsync_total]
                else returned rocsparse_status_success nnz_per_row (Some 0)
                       [runtime hipMemsetAsync_total])
             else returned rocsparse_status_success nnz_per_row (Some 0) [host_store])
      else
     (case csr_val_A of
        None \<Rightarrow> returned rocsparse_status_invalid_pointer nnz_per_row nnz_C []
      | Some val \<Rightarrow>
     (case csr_row_ptr_A of
        None \<Rightarrow> returned rocsparse_status_invalid_pointer nnz_per_row nnz_C []
      | Some row_ptr \<Rightarrow>
     (case nnz_per_row of
        None \<Rightarrow> returned rocsparse_status_invalid_pointer nnz_per_row nnz_C []
      | Some per_row \<Rightarrow>
     (case nnz_C of
        None \<Rightarrow> returned rocsparse_status_invalid_pointer nnz_per_row nnz_C []
      | Some c \<Rightarrow> nnz_compress_count rt kern h m d val row_ptr per_row c tol))))))"

text \<open>The four instances the library exports: two real and two complex element types.\<close>

definition rocsparse_snnz_compress where
  "rocsparse_snnz_compress = rocsparse_nnz_compress_template (\<lambda>x::real. x)"

definition rocsparse_cnnz_compress where
  "rocsparse_cnnz_compress = rocsparse_nnz_compress_template Re"

section \<open>The dense counting routine\<close>

text \<open>
  Modelled from the spec: \<open>rocsparse_get_pointer_mode\<close> is not in the sources. The
  pointer mode is a flag the handle owns (section 3 of the specification), so reading
  it from a handle gives that flag; without a handle there is no flag to give.
\<close>

definition rocsparse_get_pointer_mode ::
  "rocsparse_handle option \<Rightarrow> rocsparse_status \<times> rocsparse_pointer_mode option" where
  "rocsparse_get_pointer_mode handle =
     (case handle of
        None \<Rightarrow> (rocsparse_status_invalid_handle, None)
      | Some h \<Rightarrow> (rocsparse_status_success, Some (pointer_mode h)))"

text \<open>
  \<open>rocsparse_nnz_template\<close>, which launches the counting kernel, is not in the
  sources. It is a parameter: given its arguments and the per-row (or per-column)
  array, it gives its status and the array after it has run.
\<close>

type_synonym 'a nnz_template =
  "rocsparse_handle \<Rightarrow> rocsparse_direction \<Rightarrow> int \<Rightarrow> int \<Rightarrow> 'a list \<Rightarrow> int \<Rightarrow> int list \<Rightarrow>
   rocsparse_status \<times> int list"

text \<open>
  The last block of \<open>rocsparse_nnz_impl\<close>: the reduction of the first \<open>mn\<close> counts
  into \<open>d_nnz\<close>, a device scalar in the handle's scratch buffer or in a buffer
  allocated for this call, and the copy of \<open>d_nnz\<close> to the caller's scalar.
\<close>

definition nnz_reduce ::
  "device_runtime \<Rightarrow> rocsparse_handle \<Rightarrow> int \<Rightarrow> int list \<Rightarrow> int \<Rightarrow> event list \<Rightarrow> fault + nnz_outcome" where
  "nnz_reduce rt h mn per_row nnz_total tr0 =
     (let tr1 = tr0 @ [runtime rocprim_reduce_size] in
      if hip_failed rt rocprim_reduce_size
      then returned (hip_status rt rocprim_reduce_size) (Some per_row) (Some nnz_total) tr1
      else
      let bytes = temp_storage_size_bytes rt + 4;
          temp_alloc = \<not> (bytes \<le> buffer_size h);
          tr2 = (if temp_alloc then tr1 @ [runtime hipMalloc_temp] else tr1)
      in
      if temp_alloc \<and> hip_failed rt hipMalloc_temp
      then returned (hip_status rt hipMalloc_temp) (Some per_row) (Some nnz_total) tr2
      else
      let tr3 = tr2 @ [runtime rocprim_reduce] in
      if \<not> (0 \<le> mn \<and> nat mn \<le> length per_row) then Inl OutOfBounds
      else if hip_failed rt rocprim_reduce
      then returned (hip_status rt rocprim_reduce) (Some per_row) (Some nnz_total) tr3
      else
      let d_nnz = rocprim_reduce_plus (0 # take (nat mn) per_row);
          copy = (if pointer_mode h = rocsparse_pointer_mode_device
                  then hipMemcpyAsync_total else hipMemcpy_total);
          tr4 = tr3 @ [runtime copy]
      in
      if hip_failed rt copy
      then returned (hip_status rt copy) (Some per_row) (Some nnz_total) tr4
      else free_temp_and_return rt temp_alloc per_row d_nnz tr4)"

text \<open>
  \<open>rocsparse_nnz_impl\<close>. Logging reads the arguments only and is left out.
\<close>

definition rocsparse_nnz_impl ::
  "device_runtime \<Rightarrow> 'a nnz_template \<Rightarrow> rocsparse_handle option \<Rightarrow> rocsparse_direction \<Rightarrow>
   int \<Rightarrow> int \<Rightarrow> rocsparse_mat_descr option \<Rightarrow> 'a list option \<Rightarrow> int \<Rightarrow>
   int list option \<Rightarrow> int option \<Rightarrow> fault + nnz_outcome" where
  "rocsparse_nnz_impl rt rocsparse_nnz_template handle dir m n descr A ld nnz_per_row_columns
       nnz_total_dev_host_ptr =
     (case handle of
        None \<Rightarrow>
          returned rocsparse_status_invalid_handle nnz_per_row_columns nnz_total_dev_host_ptr []
      | Some h \<Rightarrow>
      if rocsparse_direction_row \<noteq> dir \<and> rocsparse_direction_column \<noteq> dir
      then returned rocsparse_status_invalid_value nnz_per_row_columns nnz_total_dev_host_ptr []
      else if m < 0 \<or> n < 0 \<or> ld < m
      then returned rocsparse_status_invalid_size nnz_per_row_columns nnz_total_dev_host_ptr []
      else if m = 0 \<or> n = 0 then
        (case nnz_total_dev_host_ptr of
           None \<Rightarrow> returned rocsparse_status_success nnz_per_row_columns None []
         | Some t \<Rightarrow>
            (case rocsparse_get_pointer_mode handle of
               (status, mode) \<Rightarrow>
                 if rocsparse_status_success \<noteq> status
                 then returned status nnz_per_row_columns nnz_total_dev_host_ptr []
                 else if Some rocsparse_pointer_mode_device = mode then
                   (if hip_failed rt hipMemsetAsync_total
                    then returned (hip_status rt hipMemsetAsync_total) nnz_per_row_columns
                           nnz_total_dev_host_ptr [runtime hipMemsetAsync_total]
                    else returned rocsparse_status_success nnz_per_row_columns (Some 0)
                           [runtime hipMemsetAsync_total])
                 else returned rocsparse_status_success nnz_per_row_columns (Some 0)
                        [host_store]))
      else
     (case (descr, nnz_per_row_columns, A, nnz_total_dev_host_ptr) of
        (Some d, Some per_row, Some a, Some t) \<Rightarrow>
          if rocsparse_matrix_type_general \<noteq> descr_type d
          then returned rocsparse_status_not_implemented nnz_per_row_columns
                 nnz_total_dev_host_ptr []
          else
          (case rocsparse_nnz_template h dir m n a ld per_row of
             (status, counts) \<Rightarrow>
               if status \<noteq> rocsparse_status_success
               then returned status (Some counts) nnz_total_dev_host_ptr [call_nnz_template]
               else
               let mn = (if dir = rocsparse_direction_row then m else n)
               in nnz_reduce rt h mn counts t [call_nnz_template])
      | _ \<Rightarrow>
          returned rocsparse_status_invalid_pointer nnz_per_row_columns
            nnz_total_dev_host_ptr []))"

section \<open>The dense converter\<close>

text \<open>
  The outcome of the converter: its status, the dense array as it is after the call,
  and what it issued.
\<close>

record 'a csx2dense_outcome =
  csx_status :: rocsparse_status
  dense_out :: "'a list option"
  csx_issued :: "event list"

definition csx_returned ::
  "rocsparse_status \<Rightarrow> 'a list option \<Rightarrow> event list \<Rightarrow> fault + 'a csx2dense_outcome" where
  "csx_returned s A tr = Inr \<lparr>csx_status = s, dense_out = A, csx_issued = tr\<rparr>"

text \<open>A sequence of steps, each of which can fault.\<close>

fun fold_fault :: "('b \<Rightarrow> 's \<Rightarrow> fault + 's) \<Rightarrow> 'b list \<Rightarrow> 's \<Rightarrow> fault + 's" where
  "fold_fault f [] s = Inr s"
| "fold_fault f (x # xs) s = (case f x s of Inl e \<Rightarrow> Inl e | Inr s' \<Rightarrow> fold_fault f xs s')"

text \<open>
  Modelled from the spec: the scatter kernels \<open>csr2dense_kernel\<close> and
  \<open>csc2dense_kernel\<close> (\<open>csx2dense_device.h\<close>) are not in the sources. Section 4.3
  of the specification: the kernel "writes each compressed entry to its dense
  coordinate", row-oriented for CSR and column-oriented for CSC. The dense matrix is
  laid out as the zero fill of the converter lays it out: the entry of row \<open>i\<close> and
  column \<open>j\<close> is at \<open>j * ld + i\<close> (\<open>dense_index\<close>). The stored entries of the row
  (or column) \<open>major\<close> are those at the positions from its pointer to the next one
  (\<open>csx_line_range\<close>). \<open>csx2dense_entry\<close> writes one stored entry of the row (or
  column) \<open>major\<close>, \<open>csx2dense_line\<close> the entries of one row (or column),
  \<open>csx2dense_kernel\<close> all rows (or columns).
\<close>

definition dense_index :: "rocsparse_direction \<Rightarrow> int \<Rightarrow> int \<Rightarrow> int \<Rightarrow> int" where
  "dense_index dir ld major minor =
     (if dir = rocsparse_direction_row then minor * ld + major else major * ld + minor)"

definition csx2dense_entry ::
  "rocsparse_direction \<Rightarrow> int \<Rightarrow> 'a list \<Rightarrow> int list \<Rightarrow> int \<Rightarrow> int \<Rightarrow> int \<Rightarrow> 'a list \<Rightarrow>
   fault + 'a list" where
  "csx2dense_entry dir base csx_val csx_col_row_ind ld major k A =
     (if \<not> (0 \<le> k \<and> nat k < length csx_col_row_ind \<and> nat k < length csx_val)
      then Inl OutOfBounds
      else
      let minor = csx_col_row_ind ! nat k - base;
          p = dense_index dir ld major minor
      in if 0 \<le> p \<and> nat p < length A then Inr (A[nat p := csx_val ! nat k])
         else Inl OutOfBounds)"

definition csx_line_range :: "int \<Rightarrow> int list \<Rightarrow> int \<Rightarrow> int list" where
  "csx_line_range base csx_row_col_ptr major =
     [csx_row_col_ptr ! nat major - base .. csx_row_col_ptr ! (nat major + 1) - base - 1]"

definition csx2dense_line ::
  "rocsparse_direction \<Rightarrow> int \<Rightarrow> 'a list \<Rightarrow> int list \<Rightarrow> int list \<Rightarrow> int \<Rightarrow> int \<Rightarrow> 'a list \<Rightarrow>
   fault + 'a list" where
  "csx2dense_line dir base csx_val csx_row_col_ptr csx_col_row_ind ld major A =
     (if \<not> (0 \<le> major \<and> nat major + 1 < length csx_row_col_ptr) then Inl OutOfBounds
      else fold_fault (csx2dense_entry dir base csx_val csx_col_row_ind ld major)
             (csx_line_range base csx_row_col_ptr major) A)"

definition csx2dense_kernel ::
  "rocsparse_direction \<Rightarrow> int \<Rightarrow> int \<Rightarrow> int \<Rightarrow> 'a list \<Rightarrow> int list \<Rightarrow> int list \<Rightarrow> 'a list \<Rightarrow>
   int \<Rightarrow> fault + 'a list" where
  "csx2dense_kernel dir base m n csx_val csx_row_col_ptr csx_col_row_ind A ld =
     fold_fault (csx2dense_line dir base csx_val csx_row_col_ptr csx_col_row_ind ld)
       [0..(if dir = rocsparse_direction_row then m else n) - 1] A"

text \<open>
  \<open>rocsparse_csx2dense_template\<close>, with the template argument \<open>DIRA\<close> as its
  first argument. One block takes 16 rows (or columns), one wavefront of 64 lanes
  each.
\<close>

definition rocsparse_csx2dense_template ::
  "rocsparse_direction \<Rightarrow> rocsparse_handle \<Rightarrow> int \<Rightarrow> int \<Rightarrow> rocsparse_mat_descr \<Rightarrow> 'a list \<Rightarrow>
   int list \<Rightarrow> int list \<Rightarrow> 'a list \<Rightarrow> int \<Rightarrow> event list \<Rightarrow> fault + 'a csx2dense_outcome" where
  "rocsparse_csx2dense_template DIRA handle m n descr csx_val csx_row_col_ptr csx_col_row_ind
       A ld tr =
     (if 0 = m \<or> 0 = n then csx_returned rocsparse_status_success (Some A) tr
      else if DIRA = rocsparse_direction_row then
        (let blocks = int32 (c_div (int32 (m - 1)) 16 + 1);
             tr' = tr @ [launch_csx2dense_kernel DIRA blocks (64 * 16)]
         in case csx2dense_kernel DIRA (index_base_value (descr_base descr)) m n csx_val
                   csx_row_col_ptr csx_col_row_ind A ld of
              Inl e \<Rightarrow> Inl e
            | Inr A' \<Rightarrow> csx_returned rocsparse_status_success (Some A') tr')
      else if DIRA = rocsparse_direction_column then
        (let blocks = int32 (c_div (int32 (n - 1)) 16 + 1);
             tr' = tr @ [launch_csx2dense_kernel DIRA blocks (64 * 16)]
         in case csx2dense_kernel DIRA (index_base_value (descr_base descr)) m n csx_val
                   csx_row_col_ptr csx_col_row_ind A ld of
              Inl e \<Rightarrow> Inl e
            | Inr A' \<Rightarrow> csx_returned rocsparse_status_success (Some A') tr')
      else csx_returned rocsparse_status_invalid_value (Some A) tr)"

text \<open>
  \<open>hipMemset2DAsync(A, lda * sizeof(T), 0, m * sizeof(T), n, stream)\<close>: \<open>height\<close>
  lines of \<open>width\<close> elements each, \<open>pitch\<close> elements apart, are set to zero. The
  source does not look at the result of the call; the fill is taken as done.
\<close>

definition memset2D :: "'a::zero list \<Rightarrow> int \<Rightarrow> int \<Rightarrow> int \<Rightarrow> fault + 'a list" where
  "memset2D A pitch width height =
     (if height \<le> 0 \<or> width \<le> 0 then Inr A
      else if pitch < 0 \<or> int (length A) < (height - 1) * pitch + width then Inl OutOfBounds
      else Inr (map (\<lambda>p. if int p mod pitch < width \<and> int p div pitch < height
                          then 0 else A ! p) [0..<length A]))"

text \<open>
  \<open>rocsparse_csx2dense_impl\<close>, with the template argument \<open>DIRA\<close> as its first
  argument. Logging is left out but for one thing: the call of \<open>log_bench\<close> has
  \<open>descr->base\<close> among its arguments, which reads through \<open>descr\<close> before any
  check of that pointer.
\<close>

definition rocsparse_csx2dense_impl ::
  "rocsparse_direction \<Rightarrow> rocsparse_handle option \<Rightarrow> int \<Rightarrow> int \<Rightarrow> rocsparse_mat_descr option \<Rightarrow>
   'a::zero list option \<Rightarrow> int list option \<Rightarrow> int list option \<Rightarrow> 'a list option \<Rightarrow> int \<Rightarrow>
   fault + 'a csx2dense_outcome" where
  "rocsparse_csx2dense_impl DIRA handle m n descr csx_val csx_row_col_ptr csx_col_row_ind A lda =
     (case handle of
        None \<Rightarrow> csx_returned rocsparse_status_invalid_handle A []
      | Some h \<Rightarrow>
      if descr = None then Inl NullDereference
      else if m < 0 \<or> n < 0 \<or> lda < m then csx_returned rocsparse_status_invalid_size A []
      else if m = 0 \<or> n = 0 then csx_returned rocsparse_status_success A []
      else
     (case (descr, A, csx_row_col_ptr, csx_col_row_ind, csx_val) of
        (Some d, Some a, Some ptr, Some ind, Some val) \<Rightarrow>
          if rocsparse_matrix_type_general \<noteq> descr_type d
          then csx_returned rocsparse_status_not_implemented A []
          else
          (case memset2D a lda m n of
             Inl e \<Rightarrow> Inl e
           | Inr a0 \<Rightarrow>
               rocsparse_csx2dense_template DIRA h m n d val ptr ind a0 lda
                 [hipMemset2DAsync lda m n])
      | _ \<Rightarrow> csx_returned rocsparse_status_invalid_pointer A []))"

section \<open>The permutation kernel of csr2csc\<close>

text \<open>
  One lane of \<open>csr2csc_permute_kernel\<close>: \<open>BLOCKSIZE\<close> is the template argument,
  \<open>hipBlockIdx_x\<close> and \<open>hipThreadIdx_x\<close> are the lane's coordinates. The lane's
  index is computed in unsigned 32-bit arithmetic and read as a \<open>rocsparse_int\<close>.
  The lane returns the two output arrays as it leaves them.
\<close>

definition lane_gid :: "nat \<Rightarrow> nat \<Rightarrow> nat \<Rightarrow> int" where
  "lane_gid BLOCKSIZE hipBlockIdx_x hipThreadIdx_x =
     int32 (int ((hipBlockIdx_x * BLOCKSIZE + hipThreadIdx_x) mod 4294967296))"

definition csr2csc_permute_kernel ::
  "nat \<Rightarrow> nat \<Rightarrow> nat \<Rightarrow> int \<Rightarrow> int list \<Rightarrow> 'a list \<Rightarrow> int list \<Rightarrow> int list \<times> 'a list \<Rightarrow>
   fault + int list \<times> 'a list" where
  "csr2csc_permute_kernel BLOCKSIZE hipBlockIdx_x hipThreadIdx_x nnz in1 in2 map_arr out =
     (let gid = lane_gid BLOCKSIZE hipBlockIdx_x hipThreadIdx_x in
      if gid \<ge> nnz then Inr out
      else if \<not> (0 \<le> gid \<and> nat gid < length map_arr) then Inl OutOfBounds
      else
      let idx = map_arr ! nat gid in
      if \<not> (0 \<le> idx \<and> nat idx < length in1 \<and> nat gid < length (fst out)) then Inl OutOfBounds
      else
      let out1 = (fst out)[nat gid := in1 ! nat idx] in
      if \<not> (nat idx < length in2 \<and> nat gid < length (snd out)) then Inl OutOfBounds
      else Inr (out1, (snd out)[nat gid := in2 ! nat idx]))"

section \<open>The selection rule as the specification words it\<close>

text \<open>
  Section 4.2 of the specification words the selection of the kernel variant as "the
  smallest power-of-two segment \<ge> the mean, up to the hardware wavefront width".
  \<open>pow2_ge p x\<close> doubles \<open>p\<close> until it is at least \<open>x\<close>, so \<open>pow2_ge 1 x\<close> is
  the smallest power of two that is at least \<open>x\<close>; \<open>spec_segment_size\<close> caps it at
  the wavefront width. This definition follows the specification; the definition
  that follows the source is \<open>nnz_compress_dispatch\<close>.
\<close>

function pow2_ge :: "int \<Rightarrow> int \<Rightarrow> int" where
  "pow2_ge p x = (if x \<le> p \<or> p \<le> 0 then p else pow2_ge (2 * p) x)"
  by pat_completeness auto
termination
  by (relation "measure (\<lambda>(p, x). nat (x - p))") auto

declare pow2_ge.simps [simp del]

definition spec_segment_size :: "int \<Rightarrow> int \<Rightarrow> int" where
  "spec_segment_size wavefront mean = min wavefront (pow2_ge 1 mean)"

section \<open>Totals as sums\<close>

text \<open>
  The sum of the first \<open>k\<close> entries of an array of counts; whether a number is a
  \<open>rocsparse_int\<close>; and what it is for the total of an outcome to be the sum of its
  first \<open>k\<close> counts: the total is that sum in 32-bit arithmetic, which is the sum
  itself whenever the sum is a \<open>rocsparse_int\<close>.
\<close>

definition sum_of_counts :: "int \<Rightarrow> int list \<Rightarrow> int" where
  "sum_of_counts k counts = sum_list (take (nat k) counts)"

definition fits_rocsparse_int :: "int \<Rightarrow> bool" where
  "fits_rocsparse_int x = (- 2147483648 \<le> x \<and> x < 2147483648)"

definition total_is_sum :: "nnz_outcome \<Rightarrow> int \<Rightarrow> bool" where
  "total_is_sum r k =
     (case nnz_per_row_out r of
        None \<Rightarrow> False
      | Some counts \<Rightarrow>
          nat k \<le> length counts \<and>
          nnz_total_out r = Some (int32 (sum_of_counts k counts)) \<and>
          (fits_rocsparse_int (sum_of_counts k counts) \<longrightarrow>
             nnz_total_out r = Some (sum_of_counts k counts)))"

text \<open>
  The dense counting template is not handed the total; that it does not look at the
  pointer mode of the handle either is what it takes for the two pointer modes to
  see the same counts.
\<close>

definition ignores_pointer_mode :: "'a nnz_template \<Rightarrow> bool" where
  "ignores_pointer_mode tmpl =
     (\<forall>h mode dir m n a ld p.
        tmpl (h\<lparr>pointer_mode := mode\<rparr>) dir m n a ld p = tmpl h dir m n a ld p)"

section \<open>Compressed matrices and the dense values they stand for\<close>

text \<open>
  What the scatter kernel needs of its compressed input (CSR in the row direction,
  CSC in the column direction): the pointer array has an entry for every row (or
  column) and one more; every stored position is inside the index and value arrays;
  every stored index, less the base, is a column (or row) of the matrix; and no row
  (or column) stores the same index twice.
\<close>

definition csx_wellformed ::
  "rocsparse_direction \<Rightarrow> int \<Rightarrow> int \<Rightarrow> int \<Rightarrow> 'a list \<Rightarrow> int list \<Rightarrow> int list \<Rightarrow> bool" where
  "csx_wellformed dir base m n csx_val csx_row_col_ptr csx_col_row_ind =
     (let majors = (if dir = rocsparse_direction_row then m else n);
          minors = (if dir = rocsparse_direction_row then n else m)
      in nat majors < length csx_row_col_ptr \<and>
         list_all
           (\<lambda>major.
              list_all
                (\<lambda>k. 0 \<le> k \<and> nat k < length csx_col_row_ind \<and> nat k < length csx_val \<and>
                     base \<le> csx_col_row_ind ! nat k \<and> csx_col_row_ind ! nat k < base + minors)
                (csx_line_range base csx_row_col_ptr major) \<and>
              distinct (map (\<lambda>k. csx_col_row_ind ! nat k) (csx_line_range base csx_row_col_ptr major)))
           [0..majors - 1])"

text \<open>
  The value a compressed matrix stores at the index \<open>minor\<close> of its row (or column)
  \<open>major\<close>, and 0 where it stores none; and the value of the matrix at row \<open>i\<close> and
  column \<open>j\<close>.
\<close>

definition csx_entry_at :: "int \<Rightarrow> 'a::zero list \<Rightarrow> int list \<Rightarrow> int list \<Rightarrow> int \<Rightarrow> int \<Rightarrow> 'a" where
  "csx_entry_at base csx_val csx_row_col_ptr csx_col_row_ind major minor =
     (case filter (\<lambda>k. csx_col_row_ind ! nat k - base = minor)
             (csx_line_range base csx_row_col_ptr major) of
        [] \<Rightarrow> 0
      | k # ks \<Rightarrow> csx_val ! nat k)"

definition csx_value ::
  "rocsparse_direction \<Rightarrow> int \<Rightarrow> 'a::zero list \<Rightarrow> int list \<Rightarrow> int list \<Rightarrow> int \<Rightarrow> int \<Rightarrow> 'a" where
  "csx_value dir base csx_val csx_row_col_ptr csx_col_row_ind i j =
     (if dir = rocsparse_direction_row
      then csx_entry_at base csx_val csx_row_col_ptr csx_col_row_ind i j
      else csx_entry_at base csx_val csx_row_col_ptr csx_col_row_ind j i)"

text \<open>A sequence of writes into an array: \<open>q\<close> gives the place, \<open>v\<close> the value.\<close>

definition scatter :: "('b \<Rightarrow> nat) \<Rightarrow> ('b \<Rightarrow> 'a) \<Rightarrow> 'b list \<Rightarrow> 'a list \<Rightarrow> 'a list" where
  "scatter q v xs A = fold (\<lambda>x A. A[q x := v x]) xs A"

text \<open>
  The stored entries of a compressed matrix, each as the pair of its row (or column)
  and its position in the index and value arrays, in the order the kernel takes them.
\<close>

definition csx_entries :: "rocsparse_direction \<Rightarrow> int \<Rightarrow> int \<Rightarrow> int \<Rightarrow> int list \<Rightarrow> (int \<times> int) list" where
  "csx_entries dir base m n ptr =
     concat (map (\<lambda>major. map (Pair major) (csx_line_range base ptr major))
               [0..(if dir = rocsparse_direction_row then m else n) - 1])"

section \<open>Concrete inputs\<close>

text \<open>
  A runtime whose calls all succeed, and one where a single call site fails. The
  translation used with them sends an allocation failure to the memory error, an
  invalid device pointer to the invalid pointer and every other failure to the
  internal error.
\<close>

definition example_status_for_hip :: "hipError_t \<Rightarrow> rocsparse_status" where
  "example_status_for_hip e =
     (case e of
        hipSuccess \<Rightarrow> rocsparse_status_success
      | hipErrorOutOfMemory \<Rightarrow> rocsparse_status_memory_error
      | hipErrorInvalidDevicePointer \<Rightarrow> rocsparse_status_invalid_pointer
      | hipErrorInvalidValue \<Rightarrow> rocsparse_status_internal_error
      | hipErrorLaunchFailure \<Rightarrow> rocsparse_status_internal_error)"

definition runtime_ok :: device_runtime where
  "runtime_ok =
     \<lparr>hip_result = (\<lambda>c. hipSuccess),
      get_rocsparse_status_for_hip_status = example_status_for_hip,
      temp_storage_size_bytes = 256\<rparr>"

definition runtime_failing :: "hip_call \<Rightarrow> hipError_t \<Rightarrow> device_runtime" where
  "runtime_failing c e =
     \<lparr>hip_result = (\<lambda>c'. if c' = c then e else hipSuccess),
      get_rocsparse_status_for_hip_status = example_status_for_hip,
      temp_storage_size_bytes = 256\<rparr>"

definition example_handle :: "rocsparse_pointer_mode \<Rightarrow> int \<Rightarrow> rocsparse_handle" where
  "example_handle mode wavefront =
     \<lparr>pointer_mode = mode, wavefront_size = wavefront, buffer_size = 1024\<rparr>"

definition general_descr :: rocsparse_mat_descr where
  "general_descr =
     \<lparr>descr_type = rocsparse_matrix_type_general, descr_base = rocsparse_index_base_zero\<rparr>"

text \<open>
  A stand-in for the compression kernel: it counts, for each row, the entries whose
  value is not the tolerance-free zero, and leaves the rest of the array as it is.
\<close>

definition example_compress_kernel :: "int nnz_compress_kernel" where
  "example_compress_kernel l m base csr_val csr_row_ptr nnz_per_row tol =
     map (\<lambda>i. int (length (filter (\<lambda>k. \<bar>csr_val ! nat k\<bar> > tol)
                  [csr_row_ptr ! i - index_base_value base ..
                   csr_row_ptr ! (i + 1) - index_base_value base - 1])))
       [0..<nat m]
     @ drop (nat m) nnz_per_row"

text \<open>
  A stand-in for the dense counting template: the number of entries other than zero
  in each row (or column) of a column-major matrix.
\<close>

definition example_nnz_template :: "int nnz_template" where
  "example_nnz_template h dir m n A ld nnz_per_row_columns =
     (rocsparse_status_success,
      (if dir = rocsparse_direction_row
       then map (\<lambda>i. int (length (filter (\<lambda>j. A ! (j * nat ld + i) \<noteq> 0) [0..<nat n])))
              [0..<nat m]
       else map (\<lambda>j. int (length (filter (\<lambda>i. A ! (j * nat ld + i) \<noteq> 0) [0..<nat m])))
              [0..<nat n]))"

text \<open>
  A dense matrix of 65536 rows and 65536 columns, all of whose entries are 1.
\<close>

definition full_dense_matrix :: "int list" where
  "full_dense_matrix = replicate (nat 65536 * nat 65536) 1"

section \<open>Basic facts about outcomes\<close>

lemma returned_eq [simp]:
  "(returned s p t tr = returned s' p' t' tr') = (s = s' \<and> p = p' \<and> t = t' \<and> tr = tr')"
  by (auto simp: returned_def)

lemma returned_not_fault [simp]: "returned s p t tr \<noteq> Inl e" "Inl e \<noteq> returned s p t tr"
  by (simp_all add: returned_def)

lemma returned_Inr [simp]:
  "(returned s p t tr = Inr r) =
   (nnz_status r = s \<and> nnz_per_row_out r = p \<and> nnz_total_out r = t \<and> issued r = tr)"
  by (cases r) (auto simp: returned_def)

lemma free_temp_and_return_cases:
  assumes "free_temp_and_return rt ta pr t tr = Inr r"
  shows "(\<exists>tr'. issued r = tr @ tr') \<and> nnz_per_row_out r = Some pr \<and> nnz_total_out r = Some t \<and>
         (nnz_status r = rocsparse_status_success \<or>
          (\<exists>c. hip_failed rt c \<and> nnz_status r = hip_status rt c))"
  using assms by (auto simp: free_temp_and_return_def split: if_splits)

lemma nnz_compress_reduce_cases:
  assumes "nnz_compress_reduce rt h m pr c tr0 = Inr r"
  shows "(\<exists>tr. issued r = tr0 @ tr) \<and> nnz_per_row_out r = Some pr \<and>
         ((nat m \<le> length pr \<and> nnz_total_out r = Some (rocprim_reduce_plus (take (nat m) pr)) \<and>
           nnz_status r = rocsparse_status_success) \<or>
          (\<exists>c. hip_failed rt c \<and> nnz_status r = hip_status rt c))"
proof (cases "pointer_mode h = rocsparse_pointer_mode_host")
  case host: True
  show ?thesis
  proof (cases "temp_storage_size_bytes rt \<le> buffer_size h")
    case True
    with host assms show ?thesis
      unfolding nnz_compress_reduce_def Let_def
      by (simp split: if_splits) (use free_temp_and_return_cases in fastforce)+
  next
    case False
    with host assms show ?thesis
      unfolding nnz_compress_reduce_def Let_def
      by (simp split: if_splits) (use free_temp_and_return_cases in fastforce)+
  qed
next
  case dev: False
  show ?thesis
  proof (cases "temp_storage_size_bytes rt \<le> buffer_size h")
    case True
    with dev assms show ?thesis
      unfolding nnz_compress_reduce_def Let_def
      by (simp split: if_splits) (use free_temp_and_return_cases in fastforce)+
  next
    case False
    with dev assms show ?thesis
      unfolding nnz_compress_reduce_def Let_def
      by (simp split: if_splits) (use free_temp_and_return_cases in fastforce)+
  qed
qed

lemma nnz_compress_count_cases:
  assumes "nnz_compress_count rt kern h m d v rp pr c tol = Inr r"
  shows "issued r \<noteq> [] \<and>
         (nnz_status r = rocsparse_status_success \<or>
          (nnz_status r = rocsparse_status_arch_mismatch \<and>
           wavefront_size h \<noteq> 32 \<and> wavefront_size h \<noteq> 64) \<or>
          (\<exists>call. hip_failed rt call \<and> nnz_status r = hip_status rt call))"
proof (cases "nnz_compress_dispatch (wavefront_size h) (c_div (rp ! nat m) m) m")
  case None
  then have "wavefront_size h \<noteq> 32 \<and> wavefront_size h \<noteq> 64"
    by (auto simp: nnz_compress_dispatch_def split: if_splits)
  with None assms show ?thesis
    unfolding nnz_compress_count_def Let_def
    by (auto split: if_splits)
next
  case (Some l)
  with assms show ?thesis
    unfolding nnz_compress_count_def Let_def
    by (auto split: if_splits dest!: nnz_compress_reduce_cases)
qed

section \<open>Argument checks of the dense counting routine\<close>

text \<open>
  C9. With a handle, a direction that is neither the row nor the column direction
  makes \<open>rocsparse_nnz_impl\<close> return the invalid-value status, whatever the sizes,
  the leading dimension and the pointers are, and nothing is written or issued. The
  check of the direction stands before the check of the sizes and before the early
  return for a zero dimension: the witness has \<open>m = 0\<close> and \<open>n = 0\<close>.
\<close>

theorem nnz_invalid_direction:
  assumes "rocsparse_direction_row \<noteq> dir" and "rocsparse_direction_column \<noteq> dir"
  shows "rocsparse_nnz_impl rt nnz_template (Some h) dir m n descr A ld nnz_per_row nnz_total
           = returned rocsparse_status_invalid_value nnz_per_row nnz_total []"
  using assms by (simp add: rocsparse_nnz_impl_def)

theorem nnz_invalid_direction_witness:
  "rocsparse_nnz_impl runtime_ok example_nnz_template
     (Some (example_handle rocsparse_pointer_mode_host 64)) 7 0 0 None None 0 None (Some 5)
   = returned rocsparse_status_invalid_value None (Some 5) []"
  using nnz_invalid_direction [of 7 runtime_ok example_nnz_template
      "example_handle rocsparse_pointer_mode_host 64" 0 0 None None 0 None "Some 5"]
  by (simp add: rocsparse_direction_row_def rocsparse_direction_column_def)

text \<open>
  C2, as the code has it. With a handle, a direction, non-negative sizes and a leading
  dimension of at least \<open>m\<close>, a call with \<open>m = 0\<close> or \<open>n = 0\<close> returns before any
  pointer is checked, so the descriptor, the dense matrix and the per-row array may be
  null. Without a total pointer it returns success and writes nothing. With one, in
  host pointer mode it stores 0 through it and returns success; in device pointer mode
  it issues the asynchronous zero fill, and returns success with the total 0 if the
  runtime accepts it, and the translated status of the runtime's error, with the total
  as it was, if not.
\<close>

theorem nnz_zero_dimension_quick_return:
  assumes "dir = rocsparse_direction_row \<or> dir = rocsparse_direction_column"
    and "0 \<le> m" and "0 \<le> n" and "m \<le> ld" and "m = 0 \<or> n = 0"
  shows "rocsparse_nnz_impl rt nnz_template (Some h) dir m n descr A ld nnz_per_row nnz_total =
     (case nnz_total of
        None \<Rightarrow> returned rocsparse_status_success nnz_per_row None []
      | Some t \<Rightarrow>
          if pointer_mode h = rocsparse_pointer_mode_device then
            (if hip_failed rt hipMemsetAsync_total
             then returned (hip_status rt hipMemsetAsync_total) nnz_per_row (Some t)
                    [runtime hipMemsetAsync_total]
             else returned rocsparse_status_success nnz_per_row (Some 0)
                    [runtime hipMemsetAsync_total])
          else returned rocsparse_status_success nnz_per_row (Some 0) [host_store])"
  using assms
  by (auto simp: rocsparse_nnz_impl_def rocsparse_get_pointer_mode_def split: option.splits)

theorem nnz_zero_dimension_quick_return_witness:
  "rocsparse_nnz_impl runtime_ok example_nnz_template
     (Some (example_handle rocsparse_pointer_mode_host 64)) rocsparse_direction_row 0 3
     None None 0 None (Some 7)
   = returned rocsparse_status_success None (Some 0) [host_store]"
  using nnz_zero_dimension_quick_return [of rocsparse_direction_row 0 3 0 runtime_ok
      example_nnz_template "example_handle rocsparse_pointer_mode_host 64" None None None "Some 7"]
  by (simp add: example_handle_def)

text \<open>
  The claim C2 as it is worded promises success for every such call. In device pointer
  mode, when the runtime refuses the zero fill, the call returns the translated error
  and the total keeps its value.
\<close>

theorem nnz_zero_dimension_runtime_failure:
  "rocsparse_nnz_impl (runtime_failing hipMemsetAsync_total hipErrorInvalidValue)
     example_nnz_template
     (Some (example_handle rocsparse_pointer_mode_device 64)) rocsparse_direction_row 0 3
     None None 0 None (Some 7)
   = returned rocsparse_status_internal_error None (Some 7) [runtime hipMemsetAsync_total]"
  by (simp add: rocsparse_nnz_impl_def rocsparse_get_pointer_mode_def example_handle_def
      runtime_failing_def hip_failed_def hip_status_def example_status_for_hip_def
      rocsparse_direction_row_def rocsparse_direction_column_def)

section \<open>Argument checks of nnz_compress\<close>

text \<open>
  C10. After the checks of the handle, of the descriptor and of the row count, the
  tolerance is checked through its real part alone: the routine returns the
  invalid-value status at this check (before it writes or issues anything) exactly
  when \<open>std::real(tol) < 0\<close>. For a complex element type this is the real part
  \<open>x\<close> of \<open>Complex x y\<close>, whatever \<open>y\<close> is. When the real part is not negative,
  the invalid-value status can only be the translation of an error of the runtime.
\<close>

theorem nnz_compress_tolerance_real_part:
  assumes "0 \<le> m"
  shows "((rocsparse_nnz_compress_template std_real rt kern (Some h) m (Some d) v rp pr c tol
            = returned rocsparse_status_invalid_value pr c [])
          = (std_real tol < std_real 0))
       \<and> ((rocsparse_cnnz_compress rt kern' (Some h) m (Some d) v' rp pr c (Complex x y)
            = returned rocsparse_status_invalid_value pr c [])
          = (x < 0))
       \<and> (\<forall>r. rocsparse_nnz_compress_template std_real rt kern (Some h) m (Some d) v rp pr c tol
                 = Inr r \<and> nnz_status r = rocsparse_status_invalid_value
                 \<and> \<not> std_real tol < std_real 0
              \<longrightarrow> (\<exists>call. hip_failed rt call \<and>
                     hip_status rt call = rocsparse_status_invalid_value))"
proof -
  have main: "(rocsparse_nnz_compress_template sr rt k (Some h) m (Some d) w rp pr c t
            = returned rocsparse_status_invalid_value pr c []) = (sr t < sr 0)"
    for sr :: "'b::zero \<Rightarrow> real" and k w t
  proof (cases "sr t < sr 0")
    case True
    with assms show ?thesis by (simp add: rocsparse_nnz_compress_template_def)
  next
    case False
    with assms show ?thesis
      by (auto simp: rocsparse_nnz_compress_template_def returned_def
          split: option.splits if_splits dest!: nnz_compress_count_cases)
  qed
  have third: "\<exists>call. hip_failed rt call \<and> hip_status rt call = rocsparse_status_invalid_value"
    if "rocsparse_nnz_compress_template std_real rt kern (Some h) m (Some d) v rp pr c tol = Inr r"
      and "nnz_status r = rocsparse_status_invalid_value" and "\<not> std_real tol < std_real 0" for r
    using that assms
    by (auto simp: rocsparse_nnz_compress_template_def
          split: option.splits if_splits dest!: nnz_compress_count_cases)
  from main [of std_real kern v tol] main [of Re kern' v' "Complex x y"] third
  show ?thesis by (simp add: rocsparse_cnnz_compress_def)
qed

theorem nnz_compress_tolerance_real_part_witness:
  "rocsparse_cnnz_compress runtime_ok (\<lambda>l m b v rp pr t. pr)
      (Some (example_handle rocsparse_pointer_mode_host 64)) 0 (Some general_descr)
      None None None (Some 5) (Complex 1 (- 2))
     \<noteq> returned rocsparse_status_invalid_value None (Some 5) []
   \<and> rocsparse_cnnz_compress runtime_ok (\<lambda>l m b v rp pr t. pr)
      (Some (example_handle rocsparse_pointer_mode_host 64)) 0 (Some general_descr)
      None None None (Some 5) (Complex (- 1) 2)
     = returned rocsparse_status_invalid_value None (Some 5) []"
  using nnz_compress_tolerance_real_part [of 0 "\<lambda>x::real. x" runtime_ok undefined
      "example_handle rocsparse_pointer_mode_host 64" general_descr None None None "Some 5" 0
      "\<lambda>l m b v rp pr t. pr" None 1 "- 2"]
    nnz_compress_tolerance_real_part [of 0 "\<lambda>x::real. x" runtime_ok undefined
      "example_handle rocsparse_pointer_mode_host 64" general_descr None None None "Some 5" 0
      "\<lambda>l m b v rp pr t. pr" None "- 1" 2]
  by simp

text \<open>
  C5, as the code has it. \<open>rocsparse_nnz_compress_template\<close> checks its arguments in
  this order, and the first check that fails decides the status: no handle
  (invalid handle); no descriptor (invalid pointer); a negative row count (invalid
  size); a tolerance with negative real part (invalid value); then, for \<open>m = 0\<close>,
  the early return; and only then the four array pointers (invalid pointer). The
  early return writes 0 to the total if there is a total pointer: by a store in host
  pointer mode, by the asynchronous zero fill in device pointer mode. It returns
  success, except when the runtime refuses the zero fill: then it returns the
  translated error and the total keeps its value.
\<close>

theorem nnz_compress_validation_order:
  "rocsparse_nnz_compress_template std_real rt kern None m descr v rp pr c tol
     = returned rocsparse_status_invalid_handle pr c []
   \<and> rocsparse_nnz_compress_template std_real rt kern (Some h) m None v rp pr c tol
     = returned rocsparse_status_invalid_pointer pr c []
   \<and> (m < 0 \<longrightarrow>
        rocsparse_nnz_compress_template std_real rt kern (Some h) m (Some d) v rp pr c tol
          = returned rocsparse_status_invalid_size pr c [])
   \<and> (0 \<le> m \<and> std_real tol < std_real 0 \<longrightarrow>
        rocsparse_nnz_compress_template std_real rt kern (Some h) m (Some d) v rp pr c tol
          = returned rocsparse_status_invalid_value pr c [])
   \<and> (m = 0 \<and> \<not> std_real tol < std_real 0 \<longrightarrow>
        rocsparse_nnz_compress_template std_real rt kern (Some h) m (Some d) v rp pr c tol
          = (case c of
               None \<Rightarrow> returned rocsparse_status_success pr None []
             | Some t \<Rightarrow>
                 if pointer_mode h = rocsparse_pointer_mode_device then
                   (if hip_failed rt hipMemsetAsync_total
                    then returned (hip_status rt hipMemsetAsync_total) pr (Some t)
                           [runtime hipMemsetAsync_total]
                    else returned rocsparse_status_success pr (Some 0)
                           [runtime hipMemsetAsync_total])
                 else returned rocsparse_status_success pr (Some 0) [host_store]))
   \<and> (0 < m \<and> \<not> std_real tol < std_real 0 \<and> (v = None \<or> rp = None \<or> pr = None \<or> c = None) \<longrightarrow>
        rocsparse_nnz_compress_template std_real rt kern (Some h) m (Some d) v rp pr c tol
          = returned rocsparse_status_invalid_pointer pr c [])"
  by (auto simp: rocsparse_nnz_compress_template_def split: option.splits)

theorem nnz_compress_validation_order_witness:
  "rocsparse_snnz_compress runtime_ok (\<lambda>l m b v rp pr t. pr)
     (Some (example_handle rocsparse_pointer_mode_host 64)) (- 1) (Some general_descr)
     None None None None (- 1)
     = returned rocsparse_status_invalid_size None None []
   \<and> rocsparse_snnz_compress runtime_ok (\<lambda>l m b v rp pr t. pr)
     (Some (example_handle rocsparse_pointer_mode_host 64)) 0 (Some general_descr)
     None None None None (- 1)
     = returned rocsparse_status_invalid_value None None []
   \<and> rocsparse_snnz_compress runtime_ok (\<lambda>l m b v rp pr t. pr)
     (Some (example_handle rocsparse_pointer_mode_host 64)) 0 (Some general_descr)
     None None None (Some 7) 0
     = returned rocsparse_status_success None (Some 0) [host_store]
   \<and> rocsparse_snnz_compress runtime_ok (\<lambda>l m b v rp pr t. pr)
     (Some (example_handle rocsparse_pointer_mode_host 64)) 2 (Some general_descr)
     None (Some [0, 1, 2]) (Some [0, 0]) (Some 7) 0
     = returned rocsparse_status_invalid_pointer (Some [0, 0]) (Some 7) []"
  using nnz_compress_validation_order [of "\<lambda>x::real. x" runtime_ok "\<lambda>l m b v rp pr t. pr" "- 1"
      None None None None None "- 1" "example_handle rocsparse_pointer_mode_host 64" general_descr]
    nnz_compress_validation_order [of "\<lambda>x::real. x" runtime_ok "\<lambda>l m b v rp pr t. pr" 0
      None None None None None "- 1" "example_handle rocsparse_pointer_mode_host 64" general_descr]
    nnz_compress_validation_order [of "\<lambda>x::real. x" runtime_ok "\<lambda>l m b v rp pr t. pr" 0
      None None None None "Some 7" 0 "example_handle rocsparse_pointer_mode_host 64" general_descr]
    nnz_compress_validation_order [of "\<lambda>x::real. x" runtime_ok "\<lambda>l m b v rp pr t. pr" 2
      None None "Some [0, 1, 2]" "Some [0, 0]" "Some 7" 0
      "example_handle rocsparse_pointer_mode_host 64" general_descr]
  by (simp add: rocsparse_snnz_compress_def example_handle_def)

text \<open>
  The claim C5 as it is worded makes the early return for \<open>m = 0\<close> a success in every
  case. In device pointer mode, when the runtime refuses the zero fill, the call
  returns the translated error and writes nothing.
\<close>

theorem nnz_compress_zero_rows_runtime_failure:
  "rocsparse_snnz_compress (runtime_failing hipMemsetAsync_total hipErrorInvalidValue)
     (\<lambda>l m b v rp pr t. pr)
     (Some (example_handle rocsparse_pointer_mode_device 64)) 0 (Some general_descr)
     None None None (Some 7) 0
   = returned rocsparse_status_internal_error None (Some 7) [runtime hipMemsetAsync_total]"
  by (simp add: rocsparse_snnz_compress_def rocsparse_nnz_compress_template_def example_handle_def
      runtime_failing_def hip_failed_def hip_status_def example_status_for_hip_def)

section \<open>Kernel selection of nnz_compress\<close>

lemma dispatch_supported:
  assumes "wavefront = 32 \<or> wavefront = 64"
  shows "\<exists>seg. nnz_compress_dispatch wavefront mean m = Some (nnz_compress_variant seg wavefront m)
           \<and> (\<exists>k. seg = 2 ^ k) \<and> 2 \<le> seg \<and> seg \<le> wavefront
           \<and> (seg \<le> mean \<or> seg = 2) \<and> (mean < 2 * seg \<or> seg = wavefront)"
proof -
  have p2: "\<exists>k. (2::int) = 2 ^ k" by (rule exI [of _ 1]) simp
  have p4: "\<exists>k. (4::int) = 2 ^ k" by (rule exI [of _ 2]) simp
  have p8: "\<exists>k. (8::int) = 2 ^ k" by (rule exI [of _ 3]) simp
  have p16: "\<exists>k. (16::int) = 2 ^ k" by (rule exI [of _ 4]) simp
  have p32: "\<exists>k. (32::int) = 2 ^ k" by (rule exI [of _ 5]) simp
  have p64: "\<exists>k. (64::int) = 2 ^ k" by (rule exI [of _ 6]) simp
  from assms show ?thesis
  proof
    assume w: "wavefront = 32"
    consider "mean < 4" | "4 \<le> mean" "mean < 8" | "8 \<le> mean" "mean < 16"
      | "16 \<le> mean" "mean < 32" | "32 \<le> mean" by linarith
    then show ?thesis
    proof cases
      case 1 with w p2 show ?thesis
        by (intro exI [of _ 2]) (simp add: nnz_compress_dispatch_def)
    next
      case 2 with w p4 show ?thesis
        by (intro exI [of _ 4]) (simp add: nnz_compress_dispatch_def)
    next
      case 3 with w p8 show ?thesis
        by (intro exI [of _ 8]) (simp add: nnz_compress_dispatch_def)
    next
      case 4 with w p16 show ?thesis
        by (intro exI [of _ 16]) (simp add: nnz_compress_dispatch_def)
    next
      case 5 with w p32 show ?thesis
        by (intro exI [of _ 32]) (simp add: nnz_compress_dispatch_def)
    qed
  next
    assume w: "wavefront = 64"
    consider "mean < 4" | "4 \<le> mean" "mean < 8" | "8 \<le> mean" "mean < 16"
      | "16 \<le> mean" "mean < 32" | "32 \<le> mean" "mean < 64" | "64 \<le> mean" by linarith
    then show ?thesis
    proof cases
      case 1 with w p2 show ?thesis
        by (intro exI [of _ 2]) (simp add: nnz_compress_dispatch_def)
    next
      case 2 with w p4 show ?thesis
        by (intro exI [of _ 4]) (simp add: nnz_compress_dispatch_def)
    next
      case 3 with w p8 show ?thesis
        by (intro exI [of _ 8]) (simp add: nnz_compress_dispatch_def)
    next
      case 4 with w p16 show ?thesis
        by (intro exI [of _ 16]) (simp add: nnz_compress_dispatch_def)
    next
      case 5 with w p32 show ?thesis
        by (intro exI [of _ 32]) (simp add: nnz_compress_dispatch_def)
    next
      case 6 with w p64 show ?thesis
        by (intro exI [of _ 64]) (simp add: nnz_compress_dispatch_def)
    qed
  qed
qed

lemma variant_fields [simp]:
  "SEGMENT_SIZE (nnz_compress_variant seg w m) = seg" "WF_SIZE (nnz_compress_variant seg w m) = w"
  by (simp_all add: nnz_compress_variant_def Let_def)

text \<open>
  C1, as the code has it. When a call of \<open>rocsparse_nnz_compress_template\<close> has
  passed the argument checks with \<open>m > 0\<close>, the last row pointer has been copied to
  the host and the wavefront size of the handle is 32 or 64, the routine launches one
  variant \<open>l\<close> of the kernel and goes on to the reduction of what that kernel wrote.
  The mean is the last row pointer divided by \<open>m\<close> (truncating). The segment size of
  \<open>l\<close> is a power of two between 2 and the wavefront size; it is at most the mean
  unless it is 2, and the mean is less than twice the segment size unless the segment
  size is the wavefront size. That is: the largest power of two that is at most the
  mean, no smaller than 2 and no larger than the wavefront size.
\<close>

theorem nnz_compress_segment_selection:
  assumes "0 < m" and "\<not> std_real tol < std_real 0" and "nat m < length rp"
    and "\<not> hip_failed rt hipMemcpy_nnz_A"
    and "wavefront_size h = 32 \<or> wavefront_size h = 64"
  shows "\<exists>l. rocsparse_nnz_compress_template std_real rt kern (Some h) m (Some d)
                (Some v) (Some rp) (Some pr) (Some c) tol
              = nnz_compress_reduce rt h m (kern l m (descr_base d) v rp pr tol) c
                  [runtime hipMemcpy_nnz_A, launch_nnz_compress_kernel l]
            \<and> WF_SIZE l = wavefront_size h
            \<and> (\<exists>k. SEGMENT_SIZE l = 2 ^ k)
            \<and> 2 \<le> SEGMENT_SIZE l \<and> SEGMENT_SIZE l \<le> wavefront_size h
            \<and> (SEGMENT_SIZE l \<le> c_div (rp ! nat m) m \<or> SEGMENT_SIZE l = 2)
            \<and> (c_div (rp ! nat m) m < 2 * SEGMENT_SIZE l \<or> SEGMENT_SIZE l = wavefront_size h)"
proof -
  from dispatch_supported [OF assms(5), of "c_div (rp ! nat m) m" m]
  obtain seg where
    d: "nnz_compress_dispatch (wavefront_size h) (c_div (rp ! nat m) m) m
          = Some (nnz_compress_variant seg (wavefront_size h) m)"
    and s: "\<exists>k. seg = 2 ^ k" "2 \<le> seg" "seg \<le> wavefront_size h"
      "seg \<le> c_div (rp ! nat m) m \<or> seg = 2"
      "c_div (rp ! nat m) m < 2 * seg \<or> seg = wavefront_size h"
    by blast
  have "rocsparse_nnz_compress_template std_real rt kern (Some h) m (Some d)
                (Some v) (Some rp) (Some pr) (Some c) tol
        = nnz_compress_reduce rt h m
            (kern (nnz_compress_variant seg (wavefront_size h) m) m (descr_base d) v rp pr tol) c
            [runtime hipMemcpy_nnz_A,
             launch_nnz_compress_kernel (nnz_compress_variant seg (wavefront_size h) m)]"
    using assms(1-4) d
    by (simp add: rocsparse_nnz_compress_template_def nnz_compress_count_def)
  with s show ?thesis
    by (intro exI [of _ "nnz_compress_variant seg (wavefront_size h) m"]) simp
qed

theorem nnz_compress_segment_selection_witness:
  "\<exists>l. rocsparse_nnz_compress_template (\<lambda>x::int. real_of_int x) runtime_ok example_compress_kernel
          (Some (example_handle rocsparse_pointer_mode_host 64)) 2 (Some general_descr)
          (Some [1, 2, 3, 4, 5, 6, 7, 8, 9, 1, 2, 3]) (Some [0, 5, 12]) (Some [0, 0]) (Some 0) 0
        = nnz_compress_reduce runtime_ok (example_handle rocsparse_pointer_mode_host 64) 2
            (example_compress_kernel l 2 rocsparse_index_base_zero
               [1, 2, 3, 4, 5, 6, 7, 8, 9, 1, 2, 3] [0, 5, 12] [0, 0] 0) 0
            [runtime hipMemcpy_nnz_A, launch_nnz_compress_kernel l]
      \<and> SEGMENT_SIZE l = 4"
proof -
  from nnz_compress_segment_selection [of 2 "\<lambda>x::int. real_of_int x" 0 "[0, 5, 12]" runtime_ok
      "example_handle rocsparse_pointer_mode_host 64" example_compress_kernel general_descr
      "[1, 2, 3, 4, 5, 6, 7, 8, 9, 1, 2, 3]" "[0, 0]" 0]
  obtain l where l: "rocsparse_nnz_compress_template (\<lambda>x::int. real_of_int x) runtime_ok
          example_compress_kernel
          (Some (example_handle rocsparse_pointer_mode_host 64)) 2 (Some general_descr)
          (Some [1, 2, 3, 4, 5, 6, 7, 8, 9, 1, 2, 3]) (Some [0, 5, 12]) (Some [0, 0]) (Some 0) 0
        = nnz_compress_reduce runtime_ok (example_handle rocsparse_pointer_mode_host 64) 2
            (example_compress_kernel l 2 (descr_base general_descr)
               [1, 2, 3, 4, 5, 6, 7, 8, 9, 1, 2, 3] [0, 5, 12] [0, 0] 0) 0
            [runtime hipMemcpy_nnz_A, launch_nnz_compress_kernel l]"
    and k: "\<exists>k. SEGMENT_SIZE l = 2 ^ k" and b: "2 \<le> SEGMENT_SIZE l"
    and lo: "SEGMENT_SIZE l \<le> c_div ([0, 5, 12] ! nat 2) 2 \<or> SEGMENT_SIZE l = 2"
    and hi: "c_div ([0, 5, 12] ! nat 2) 2 < 2 * SEGMENT_SIZE l
               \<or> SEGMENT_SIZE l = wavefront_size (example_handle rocsparse_pointer_mode_host 64)"
    by (auto simp: runtime_ok_def hip_failed_def example_handle_def)
  have c: "c_div ([0, 5, 12] ! nat 2) 2 = 6"
    by (simp add: c_div_def numeral_2_eq_2)
  from k obtain e where e: "SEGMENT_SIZE l = 2 ^ e" ..
  from lo hi b have r: "3 < SEGMENT_SIZE l" "SEGMENT_SIZE l \<le> 6"
    unfolding c by (auto simp: example_handle_def)
  have "e = 2"
  proof -
    from r e have "(2::int) ^ e < 2 ^ 3" "(2::int) ^ 1 < 2 ^ e" by simp_all
    then have "e < 3" "1 < e" by (simp_all only: power_strict_increasing_iff)
    then show ?thesis by simp
  qed
  with e have "SEGMENT_SIZE l = 4" by simp
  with l show ?thesis by (auto simp: general_descr_def)
qed

text \<open>
  The claim C1 as it is worded has the smallest power of two that is at least the mean.
  For one row with three entries the mean is 3 and the smallest power of two that is
  at least 3 is 4; the routine launches the variant with segment size 2.
\<close>

theorem nnz_compress_segment_not_smallest_power:
  "rocsparse_nnz_compress_template (\<lambda>x::int. real_of_int x) runtime_ok example_compress_kernel
     (Some (example_handle rocsparse_pointer_mode_host 32)) 1 (Some general_descr)
     (Some [5, 6, 7]) (Some [0, 3]) (Some [9]) (Some 0) 0
   = returned rocsparse_status_success (Some [3]) (Some 3)
       [runtime hipMemcpy_nnz_A,
        launch_nnz_compress_kernel
          \<lparr>BLOCK_SIZE = 1024, SEGMENTS_PER_BLOCK = 512, SEGMENT_SIZE = 2, WF_SIZE = 32,
           grid_size = 1\<rparr>,
        runtime hipMalloc_total, runtime rocprim_reduce_size, runtime rocprim_reduce,
        runtime hipMemcpy_total, runtime hipFree_total]
   \<and> c_div ([0, 3] ! 1) 1 = 3
   \<and> spec_segment_size 32 3 = 4"
proof -
  have "spec_segment_size 32 3 = 4"
    by (simp add: spec_segment_size_def pow2_ge.simps)
  moreover have "c_div ([0, 3] ! 1) 1 = (3::int)" by (simp add: c_div_def)
  moreover have k: "example_compress_kernel l 1 rocsparse_index_base_zero [5, 6, 7] [0, 3] [9] 0 = [3]"
    for l by code_simp
  have "rocsparse_nnz_compress_template (\<lambda>x::int. real_of_int x) runtime_ok example_compress_kernel
     (Some (example_handle rocsparse_pointer_mode_host 32)) 1 (Some general_descr)
     (Some [5, 6, 7]) (Some [0, 3]) (Some [9]) (Some 0) 0
   = returned rocsparse_status_success (Some [3]) (Some 3)
       [runtime hipMemcpy_nnz_A,
        launch_nnz_compress_kernel
          \<lparr>BLOCK_SIZE = 1024, SEGMENTS_PER_BLOCK = 512, SEGMENT_SIZE = 2, WF_SIZE = 32,
           grid_size = 1\<rparr>,
        runtime hipMalloc_total, runtime rocprim_reduce_size, runtime rocprim_reduce,
        runtime hipMemcpy_total, runtime hipFree_total]"
    by (simp add: rocsparse_nnz_compress_template_def nnz_compress_count_def
        nnz_compress_dispatch_def nnz_compress_variant_def nnz_compress_reduce_def
        free_temp_and_return_def example_handle_def k
        general_descr_def runtime_ok_def hip_failed_def c_div_def int32_def block_size_def
        rocprim_reduce_plus_def Let_def)
  ultimately show ?thesis by simp
qed

section \<open>The unsupported wavefront sizes\<close>

text \<open>
  C8, as the code has it. A call of \<open>rocsparse_nnz_compress_template\<close> that has passed
  the argument checks with \<open>m > 0\<close> first copies the last row pointer to the host. With
  a wavefront size other than 32 and 64 it then returns the arch-mismatch status,
  having launched nothing, provided that copy succeeded; if the runtime reports an
  error for the copy, the routine returns the translation of that error instead. With
  a wavefront size of 32 or 64 the routine has no arch-mismatch return of its own: that
  status can then only be the translation of an error of the runtime.
\<close>

theorem nnz_compress_arch_mismatch:
  assumes "0 < m" and "\<not> std_real tol < std_real 0" and "nat m < length rp"
  shows "(wavefront_size h \<noteq> 32 \<and> wavefront_size h \<noteq> 64 \<longrightarrow>
            rocsparse_nnz_compress_template std_real rt kern (Some h) m (Some d)
                (Some v) (Some rp) (Some pr) (Some c) tol
            = (if hip_failed rt hipMemcpy_nnz_A
               then returned (hip_status rt hipMemcpy_nnz_A) (Some pr) (Some c)
                      [runtime hipMemcpy_nnz_A]
               else returned rocsparse_status_arch_mismatch (Some pr) (Some c)
                      [runtime hipMemcpy_nnz_A]))
       \<and> (wavefront_size h = 32 \<or> wavefront_size h = 64 \<longrightarrow>
            (\<forall>r. rocsparse_nnz_compress_template std_real rt kern (Some h) m (Some d)
                    (Some v) (Some rp) (Some pr) (Some c) tol = Inr r
                  \<and> nnz_status r = rocsparse_status_arch_mismatch
               \<longrightarrow> (\<exists>call. hip_failed rt call \<and>
                      hip_status rt call = rocsparse_status_arch_mismatch)))"
proof (intro conjI impI allI)
  assume w: "wavefront_size h \<noteq> 32 \<and> wavefront_size h \<noteq> 64"
  then have "nnz_compress_dispatch (wavefront_size h) (c_div (rp ! nat m) m) m = None"
    by (simp add: nnz_compress_dispatch_def)
  with assms show "rocsparse_nnz_compress_template std_real rt kern (Some h) m (Some d)
                (Some v) (Some rp) (Some pr) (Some c) tol
            = (if hip_failed rt hipMemcpy_nnz_A
               then returned (hip_status rt hipMemcpy_nnz_A) (Some pr) (Some c)
                      [runtime hipMemcpy_nnz_A]
               else returned rocsparse_status_arch_mismatch (Some pr) (Some c)
                      [runtime hipMemcpy_nnz_A])"
    by (simp add: rocsparse_nnz_compress_template_def nnz_compress_count_def)
next
  fix r
  assume w: "wavefront_size h = 32 \<or> wavefront_size h = 64"
    and r: "rocsparse_nnz_compress_template std_real rt kern (Some h) m (Some d)
                    (Some v) (Some rp) (Some pr) (Some c) tol = Inr r
                  \<and> nnz_status r = rocsparse_status_arch_mismatch"
  from r assms have "nnz_compress_count rt kern h m d v rp pr c tol = Inr r"
    by (simp add: rocsparse_nnz_compress_template_def)
  from nnz_compress_count_cases [OF this] r w
  show "\<exists>call. hip_failed rt call \<and> hip_status rt call = rocsparse_status_arch_mismatch"
    by auto
qed

theorem nnz_compress_arch_mismatch_witness:
  "rocsparse_snnz_compress runtime_ok (\<lambda>l m b v rp pr t. pr)
     (Some (example_handle rocsparse_pointer_mode_host 16)) 1 (Some general_descr)
     (Some [5, 6, 7]) (Some [0, 3]) (Some [9]) (Some 0) 0
   = returned rocsparse_status_arch_mismatch (Some [9]) (Some 0) [runtime hipMemcpy_nnz_A]"
  using nnz_compress_arch_mismatch [of 1 "\<lambda>x::real. x" 0 "[0, 3]"
      "example_handle rocsparse_pointer_mode_host 16" runtime_ok "\<lambda>l m b v rp pr t. pr"
      general_descr "[5, 6, 7]" "[9]" 0]
  by (simp add: rocsparse_snnz_compress_def example_handle_def runtime_ok_def hip_failed_def)

text \<open>
  The claim C8 as it is worded promises the arch-mismatch status for every such call
  with an unsupported wavefront size. When the copy of the last row pointer fails, the
  call returns the translated error of the runtime.
\<close>

theorem nnz_compress_arch_mismatch_runtime_failure:
  "rocsparse_snnz_compress (runtime_failing hipMemcpy_nnz_A hipErrorInvalidValue)
     (\<lambda>l m b v rp pr t. pr)
     (Some (example_handle rocsparse_pointer_mode_host 16)) 1 (Some general_descr)
     (Some [5, 6, 7]) (Some [0, 3]) (Some [9]) (Some 0) 0
   = returned rocsparse_status_internal_error (Some [9]) (Some 0) [runtime hipMemcpy_nnz_A]"
  by (simp add: rocsparse_snnz_compress_def rocsparse_nnz_compress_template_def
      nnz_compress_count_def example_handle_def
      runtime_failing_def hip_failed_def hip_status_def example_status_for_hip_def)

section \<open>The totals are the sums of the counts\<close>

lemma int32_id: "- 2147483648 \<le> x \<Longrightarrow> x < 2147483648 \<Longrightarrow> int32 x = x"
  by (simp add: int32_def)

lemma nnz_reduce_cases:
  assumes "nnz_reduce rt h mn pr t tr0 = Inr r"
  shows "nnz_per_row_out r = Some pr \<and>
         ((0 \<le> mn \<and> nat mn \<le> length pr \<and>
           nnz_total_out r = Some (int32 (sum_list (take (nat mn) pr))) \<and>
           nnz_status r = rocsparse_status_success) \<or>
          (\<exists>c. hip_failed rt c \<and> nnz_status r = hip_status rt c))"
proof (cases "pointer_mode h = rocsparse_pointer_mode_device")
  case dev: True
  show ?thesis
  proof (cases "temp_storage_size_bytes rt + 4 \<le> buffer_size h")
    case True
    with dev assms show ?thesis
      unfolding nnz_reduce_def Let_def rocprim_reduce_plus_def
      by (simp split: if_splits) (use free_temp_and_return_cases in fastforce)+
  next
    case False
    with dev assms show ?thesis
      unfolding nnz_reduce_def Let_def rocprim_reduce_plus_def
      by (simp split: if_splits) (use free_temp_and_return_cases in fastforce)+
  qed
next
  case host: False
  show ?thesis
  proof (cases "temp_storage_size_bytes rt + 4 \<le> buffer_size h")
    case True
    with host assms show ?thesis
      unfolding nnz_reduce_def Let_def rocprim_reduce_plus_def
      by (simp split: if_splits) (use free_temp_and_return_cases in fastforce)+
  next
    case False
    with host assms show ?thesis
      unfolding nnz_reduce_def Let_def rocprim_reduce_plus_def
      by (simp split: if_splits) (use free_temp_and_return_cases in fastforce)+
  qed
qed

lemma nnz_impl_success:
  assumes f: "translation_faithful rt"
    and r: "rocsparse_nnz_impl rt tmpl handle dir m n descr A ld pr tot = Inr r"
    and s: "nnz_status r = rocsparse_status_success"
  shows "(m = 0 \<or> n = 0 \<longrightarrow>
            nnz_per_row_out r = pr \<and> nnz_total_out r = map_option (\<lambda>t. 0) tot)
       \<and> (m \<noteq> 0 \<and> n \<noteq> 0 \<longrightarrow>
            (\<exists>h a p. handle = Some h \<and> A = Some a \<and> pr = Some p \<and>
               nnz_per_row_out r = Some (snd (tmpl h dir m n a ld p)) \<and>
               nat (if dir = rocsparse_direction_row then m else n)
                 \<le> length (snd (tmpl h dir m n a ld p)) \<and>
               nnz_total_out r =
                 Some (int32 (sum_list (take (nat (if dir = rocsparse_direction_row then m else n))
                                          (snd (tmpl h dir m n a ld p)))))))"
proof -
  have A: "nnz_per_row_out r = pr \<and> nnz_total_out r = map_option (\<lambda>t. 0) tot" if z: "m = 0 \<or> n = 0"
  proof -
  from f have nf: "hip_failed rt c \<Longrightarrow> hip_status rt c \<noteq> rocsparse_status_success" for c
    by (simp add: translation_faithful_def)
  from r s z nf [of hipMemsetAsync_total]
  show ?thesis
    by (auto simp: rocsparse_nnz_impl_def rocsparse_get_pointer_mode_def
        split: option.splits if_splits)
  qed
  have B: "\<exists>h a p. handle = Some h \<and> A = Some a \<and> pr = Some p \<and>
               nnz_per_row_out r = Some (snd (tmpl h dir m n a ld p)) \<and>
               nat (if dir = rocsparse_direction_row then m else n)
                 \<le> length (snd (tmpl h dir m n a ld p)) \<and>
               nnz_total_out r =
                 Some (int32 (sum_list (take (nat (if dir = rocsparse_direction_row then m else n))
                                          (snd (tmpl h dir m n a ld p)))))"
    if nz: "m \<noteq> 0 \<and> n \<noteq> 0"
  proof -
  from f have nf: "hip_failed rt c \<Longrightarrow> hip_status rt c \<noteq> rocsparse_status_success" for c
    by (simp add: translation_faithful_def)
  from r s nz obtain h d a p t where
    args: "handle = Some h" "descr = Some d" "A = Some a" "pr = Some p" "tot = Some t"
    by (auto simp: rocsparse_nnz_impl_def split: option.splits if_splits)
  obtain st counts where k: "tmpl h dir m n a ld p = (st, counts)" by (cases "tmpl h dir m n a ld p")
  from r s nz args k have
    "nnz_reduce rt h (if dir = rocsparse_direction_row then m else n) counts t [call_nnz_template]
       = Inr r"
    by (auto simp: rocsparse_nnz_impl_def split: if_splits)
  moreover have "hip_failed rt c \<Longrightarrow> rocsparse_status_success = hip_status rt c \<Longrightarrow> False" for c
    using nf [of c] by simp
  ultimately show ?thesis
    using nnz_reduce_cases [of rt h "if dir = rocsparse_direction_row then m else n" counts t
        "[call_nnz_template]" r] s k args
    by auto
  qed
  from A B show ?thesis by blast
qed

lemma nnz_compress_success:
  assumes f: "translation_faithful rt"
    and r: "rocsparse_nnz_compress_template std_real rt kern handle m descr v rp pr c tol = Inr r"
    and s: "nnz_status r = rocsparse_status_success"
  shows "(m = 0 \<longrightarrow> nnz_per_row_out r = pr \<and> nnz_total_out r = map_option (\<lambda>t. 0) c)
       \<and> (m \<noteq> 0 \<longrightarrow>
            (\<exists>h d a p q l. handle = Some h \<and> descr = Some d \<and> v = Some a \<and> rp = Some p \<and>
               pr = Some q \<and>
               nnz_compress_dispatch (wavefront_size h) (c_div (p ! nat m) m) m = Some l \<and>
               nnz_per_row_out r = Some (kern l m (descr_base d) a p q tol) \<and>
               nat m \<le> length (kern l m (descr_base d) a p q tol) \<and>
               nnz_total_out r =
                 Some (int32 (sum_list (take (nat m) (kern l m (descr_base d) a p q tol))))))"
proof -
  have A: "nnz_per_row_out r = pr \<and> nnz_total_out r = map_option (\<lambda>t. 0) c" if z: "m = 0"
  proof -
  from f have nf: "hip_failed rt c \<Longrightarrow> hip_status rt c \<noteq> rocsparse_status_success" for c
    by (simp add: translation_faithful_def)
  from r s z nf [of hipMemsetAsync_total]
  show ?thesis
    by (auto simp: rocsparse_nnz_compress_template_def split: option.splits if_splits)
  qed
  have B: "\<exists>h d a p q l. handle = Some h \<and> descr = Some d \<and> v = Some a \<and> rp = Some p \<and>
               pr = Some q \<and>
               nnz_compress_dispatch (wavefront_size h) (c_div (p ! nat m) m) m = Some l \<and>
               nnz_per_row_out r = Some (kern l m (descr_base d) a p q tol) \<and>
               nat m \<le> length (kern l m (descr_base d) a p q tol) \<and>
               nnz_total_out r =
                 Some (int32 (sum_list (take (nat m) (kern l m (descr_base d) a p q tol))))"
    if nz: "m \<noteq> 0"
  proof -
  from f have nf: "hip_failed rt c \<Longrightarrow> hip_status rt c \<noteq> rocsparse_status_success" for c
    by (simp add: translation_faithful_def)
  from r s nz obtain h d a p q t where
    args: "handle = Some h" "descr = Some d" "v = Some a" "rp = Some p" "pr = Some q" "c = Some t"
    and cnt: "nnz_compress_count rt kern h m d a p q t tol = Inr r"
    by (auto simp: rocsparse_nnz_compress_template_def split: option.splits if_splits)
  from cnt s nf [of hipMemcpy_nnz_A] obtain l where
    l: "nnz_compress_dispatch (wavefront_size h) (c_div (p ! nat m) m) m = Some l"
    and "nnz_compress_reduce rt h m (kern l m (descr_base d) a p q tol) t
       [runtime hipMemcpy_nnz_A, launch_nnz_compress_kernel l] = Inr r"
    unfolding nnz_compress_count_def Let_def
    by (auto split: if_splits option.splits)
  moreover have "hip_failed rt c \<Longrightarrow> rocsparse_status_success = hip_status rt c \<Longrightarrow> False" for c
    using nf [of c] by simp
  ultimately show ?thesis
    using nnz_compress_reduce_cases [of rt h m "kern l m (descr_base d) a p q tol" t
        "[runtime hipMemcpy_nnz_A, launch_nnz_compress_kernel l]" r] s args l
    by (auto simp: rocprim_reduce_plus_def)
  qed
  from A B show ?thesis by blast
qed

lemma total_is_sumI:
  "nnz_per_row_out r = Some counts \<Longrightarrow> nat k \<le> length counts \<Longrightarrow>
   nnz_total_out r = Some (int32 (sum_list (take (nat k) counts))) \<Longrightarrow> total_is_sum r k"
  by (auto simp: total_is_sum_def sum_of_counts_def fits_rocsparse_int_def int32_id)

text \<open>
  C3, as the code has it. Let the translation of runtime errors be faithful. For every
  successful call of \<open>rocsparse_nnz_impl\<close> with \<open>m\<close> and \<open>n\<close> other than 0, the
  total it reports is the sum of the first \<open>m\<close> (row direction) or \<open>n\<close> (column
  direction) entries of the array of counts it hands back; for every successful call
  of \<open>rocsparse_nnz_compress_template\<close> with \<open>m\<close> other than 0, the total is the sum
  of the first \<open>m\<close> per-row counts. The sum is the one \<open>rocprim::plus<rocsparse_int>\<close>
  computes: it wraps around at 32 bits, and it is the exact sum whenever the exact sum
  is a \<open>rocsparse_int\<close>. A successful call with a zero dimension produces no counts
  and reports the total 0 (if it is given a total pointer). This holds in either
  pointer mode, and two successful calls that differ in the pointer mode only hand
  back the same counts and the same total.
\<close>

theorem totals_are_sums_of_counts:
  assumes f: "translation_faithful rt"
  shows "(\<forall>r. rocsparse_nnz_impl rt tmpl handle dir m n descr A ld pr tot = Inr r
              \<and> nnz_status r = rocsparse_status_success
            \<longrightarrow> (if m = 0 \<or> n = 0
                 then nnz_per_row_out r = pr \<and> nnz_total_out r = map_option (\<lambda>t. 0) tot
                 else total_is_sum r (if dir = rocsparse_direction_row then m else n)))
       \<and> (\<forall>r. rocsparse_nnz_compress_template std_real rt kern handle' m' descr' v rp pr' c tol = Inr r
              \<and> nnz_status r = rocsparse_status_success
            \<longrightarrow> (if m' = 0
                 then nnz_per_row_out r = pr' \<and> nnz_total_out r = map_option (\<lambda>t. 0) c
                 else total_is_sum r m'))
       \<and> (\<forall>r1 r2. ignores_pointer_mode tmpl
              \<and> rocsparse_nnz_impl rt tmpl (Some (h\<lparr>pointer_mode := rocsparse_pointer_mode_host\<rparr>))
                  dir m n descr A ld pr tot = Inr r1
              \<and> nnz_status r1 = rocsparse_status_success
              \<and> rocsparse_nnz_impl rt tmpl (Some (h\<lparr>pointer_mode := rocsparse_pointer_mode_device\<rparr>))
                  dir m n descr A ld pr tot = Inr r2
              \<and> nnz_status r2 = rocsparse_status_success
            \<longrightarrow> nnz_per_row_out r1 = nnz_per_row_out r2 \<and> nnz_total_out r1 = nnz_total_out r2)
       \<and> (\<forall>r1 r2.
                rocsparse_nnz_compress_template std_real rt kern
                  (Some (h\<lparr>pointer_mode := rocsparse_pointer_mode_host\<rparr>))
                  m' descr' v rp pr' c tol = Inr r1
              \<and> nnz_status r1 = rocsparse_status_success
              \<and> rocsparse_nnz_compress_template std_real rt kern
                  (Some (h\<lparr>pointer_mode := rocsparse_pointer_mode_device\<rparr>))
                  m' descr' v rp pr' c tol = Inr r2
              \<and> nnz_status r2 = rocsparse_status_success
            \<longrightarrow> nnz_per_row_out r1 = nnz_per_row_out r2 \<and> nnz_total_out r1 = nnz_total_out r2)"
proof -
  have P1: "\<forall>r. rocsparse_nnz_impl rt tmpl handle dir m n descr A ld pr tot = Inr r
              \<and> nnz_status r = rocsparse_status_success
            \<longrightarrow> (if m = 0 \<or> n = 0
                 then nnz_per_row_out r = pr \<and> nnz_total_out r = map_option (\<lambda>t. 0) tot
                 else total_is_sum r (if dir = rocsparse_direction_row then m else n))"
  proof (intro allI impI)
  fix r
  assume "rocsparse_nnz_impl rt tmpl handle dir m n descr A ld pr tot = Inr r
              \<and> nnz_status r = rocsparse_status_success"
  with nnz_impl_success [OF f, of tmpl handle dir m n descr A ld pr tot r]
  show "if m = 0 \<or> n = 0
        then nnz_per_row_out r = pr \<and> nnz_total_out r = map_option (\<lambda>t. 0) tot
        else total_is_sum r (if dir = rocsparse_direction_row then m else n)"
    by (auto intro: total_is_sumI)
  qed
  have P2: "\<forall>r. rocsparse_nnz_compress_template std_real rt kern handle' m' descr' v rp pr' c tol = Inr r
              \<and> nnz_status r = rocsparse_status_success
            \<longrightarrow> (if m' = 0
                 then nnz_per_row_out r = pr' \<and> nnz_total_out r = map_option (\<lambda>t. 0) c
                 else total_is_sum r m')"
  proof (intro allI impI)
  fix r
  assume "rocsparse_nnz_compress_template std_real rt kern handle' m' descr' v rp pr' c tol = Inr r
              \<and> nnz_status r = rocsparse_status_success"
  with nnz_compress_success [OF f, of std_real kern handle' m' descr' v rp pr' c tol r]
  show "if m' = 0
        then nnz_per_row_out r = pr' \<and> nnz_total_out r = map_option (\<lambda>t. 0) c
        else total_is_sum r m'"
    by (auto intro: total_is_sumI)
  qed
  have P3: "nnz_per_row_out r1 = nnz_per_row_out r2 \<and> nnz_total_out r1 = nnz_total_out r2"
    if a: "ignores_pointer_mode tmpl
              \<and> rocsparse_nnz_impl rt tmpl (Some (h\<lparr>pointer_mode := rocsparse_pointer_mode_host\<rparr>))
                  dir m n descr A ld pr tot = Inr r1
              \<and> nnz_status r1 = rocsparse_status_success
              \<and> rocsparse_nnz_impl rt tmpl (Some (h\<lparr>pointer_mode := rocsparse_pointer_mode_device\<rparr>))
                  dir m n descr A ld pr tot = Inr r2
              \<and> nnz_status r2 = rocsparse_status_success" for r1 r2
  proof -
  from a have "tmpl (h\<lparr>pointer_mode := rocsparse_pointer_mode_host\<rparr>) dir m n a ld p
             = tmpl (h\<lparr>pointer_mode := rocsparse_pointer_mode_device\<rparr>) dir m n a ld p" for a p
    by (simp add: ignores_pointer_mode_def)
  with a nnz_impl_success [OF f, of tmpl "Some (h\<lparr>pointer_mode := rocsparse_pointer_mode_host\<rparr>)"
        dir m n descr A ld pr tot r1]
      nnz_impl_success [OF f, of tmpl "Some (h\<lparr>pointer_mode := rocsparse_pointer_mode_device\<rparr>)"
        dir m n descr A ld pr tot r2]
  show ?thesis
    by (cases "m = 0 \<or> n = 0") auto
  qed
  have P4: "nnz_per_row_out r1 = nnz_per_row_out r2 \<and> nnz_total_out r1 = nnz_total_out r2"
    if a: "rocsparse_nnz_compress_template std_real rt kern
                  (Some (h\<lparr>pointer_mode := rocsparse_pointer_mode_host\<rparr>))
                  m' descr' v rp pr' c tol = Inr r1
              \<and> nnz_status r1 = rocsparse_status_success
              \<and> rocsparse_nnz_compress_template std_real rt kern
                  (Some (h\<lparr>pointer_mode := rocsparse_pointer_mode_device\<rparr>))
                  m' descr' v rp pr' c tol = Inr r2
              \<and> nnz_status r2 = rocsparse_status_success" for r1 r2
  proof -
  from a nnz_compress_success [OF f, of std_real kern
        "Some (h\<lparr>pointer_mode := rocsparse_pointer_mode_host\<rparr>)" m' descr' v rp pr' c tol r1]
      nnz_compress_success [OF f, of std_real kern
        "Some (h\<lparr>pointer_mode := rocsparse_pointer_mode_device\<rparr>)" m' descr' v rp pr' c tol r2]
  show ?thesis
    by (cases "m' = 0") auto
  qed
  from P3 have P3': "\<forall>r1 r2. ignores_pointer_mode tmpl
              \<and> rocsparse_nnz_impl rt tmpl (Some (h\<lparr>pointer_mode := rocsparse_pointer_mode_host\<rparr>))
                  dir m n descr A ld pr tot = Inr r1
              \<and> nnz_status r1 = rocsparse_status_success
              \<and> rocsparse_nnz_impl rt tmpl (Some (h\<lparr>pointer_mode := rocsparse_pointer_mode_device\<rparr>))
                  dir m n descr A ld pr tot = Inr r2
              \<and> nnz_status r2 = rocsparse_status_success
            \<longrightarrow> nnz_per_row_out r1 = nnz_per_row_out r2 \<and> nnz_total_out r1 = nnz_total_out r2"
    by (intro allI impI)
  from P4 have P4': "\<forall>r1 r2.
                rocsparse_nnz_compress_template std_real rt kern
                  (Some (h\<lparr>pointer_mode := rocsparse_pointer_mode_host\<rparr>))
                  m' descr' v rp pr' c tol = Inr r1
              \<and> nnz_status r1 = rocsparse_status_success
              \<and> rocsparse_nnz_compress_template std_real rt kern
                  (Some (h\<lparr>pointer_mode := rocsparse_pointer_mode_device\<rparr>))
                  m' descr' v rp pr' c tol = Inr r2
              \<and> nnz_status r2 = rocsparse_status_success
            \<longrightarrow> nnz_per_row_out r1 = nnz_per_row_out r2 \<and> nnz_total_out r1 = nnz_total_out r2"
    by (intro allI impI)
  show ?thesis by (rule conjI [OF P1 conjI [OF P2 conjI [OF P3' P4']]])
qed

lemma example_nnz_template_run:
  "example_nnz_template h rocsparse_direction_row 2 2 [1, 0, 0, 1] 2 [9, 9]
     = (rocsparse_status_success, [1, 1])"
  by (simp add: example_nnz_template_def numeral_2_eq_2)

lemma example_compress_kernel_run:
  "example_compress_kernel l 2 rocsparse_index_base_zero [5, 0, 7] [0, 1, 3] [9, 9] 0 = [1, 1]"
  by code_simp

theorem totals_are_sums_of_counts_witness:
  "translation_faithful runtime_ok \<and> ignores_pointer_mode example_nnz_template
   \<and> rocsparse_nnz_impl runtime_ok example_nnz_template
        (Some (example_handle rocsparse_pointer_mode_host 64)) rocsparse_direction_row 2 2
        (Some general_descr) (Some [1, 0, 0, 1]) 2 (Some [9, 9]) (Some 7)
      = returned rocsparse_status_success (Some [1, 1]) (Some 2)
          [call_nnz_template, runtime rocprim_reduce_size, runtime rocprim_reduce,
           runtime hipMemcpy_total]
   \<and> rocsparse_nnz_impl runtime_ok example_nnz_template
        (Some (example_handle rocsparse_pointer_mode_device 64)) rocsparse_direction_row 2 2
        (Some general_descr) (Some [1, 0, 0, 1]) 2 (Some [9, 9]) (Some 7)
      = returned rocsparse_status_success (Some [1, 1]) (Some 2)
          [call_nnz_template, runtime rocprim_reduce_size, runtime rocprim_reduce,
           runtime hipMemcpyAsync_total]
   \<and> rocsparse_nnz_compress_template (\<lambda>x::int. real_of_int x) runtime_ok
        example_compress_kernel
        (Some (example_handle rocsparse_pointer_mode_host 64)) 2 (Some general_descr)
        (Some [5, 0, 7]) (Some [0, 1, 3]) (Some [9, 9]) (Some 7) 0
      = returned rocsparse_status_success (Some [1, 1]) (Some 2)
          [runtime hipMemcpy_nnz_A, launch_nnz_compress_kernel (nnz_compress_variant 2 64 2),
           runtime hipMalloc_total, runtime rocprim_reduce_size, runtime rocprim_reduce,
           runtime hipMemcpy_total, runtime hipFree_total]
   \<and> rocsparse_nnz_compress_template (\<lambda>x::int. real_of_int x) runtime_ok
        example_compress_kernel
        (Some (example_handle rocsparse_pointer_mode_device 64)) 2 (Some general_descr)
        (Some [5, 0, 7]) (Some [0, 1, 3]) (Some [9, 9]) (Some 7) 0
      = returned rocsparse_status_success (Some [1, 1]) (Some 2)
          [runtime hipMemcpy_nnz_A, launch_nnz_compress_kernel (nnz_compress_variant 2 64 2),
           runtime rocprim_reduce_size, runtime rocprim_reduce]
   \<and> total_is_sum
        \<lparr>nnz_status = rocsparse_status_success, nnz_per_row_out = Some [1, 1],
           nnz_total_out = Some 2,
           issued = [call_nnz_template, runtime rocprim_reduce_size, runtime rocprim_reduce,
                     runtime hipMemcpy_total]\<rparr> 2
   \<and> total_is_sum
        \<lparr>nnz_status = rocsparse_status_success, nnz_per_row_out = Some [1, 1],
           nnz_total_out = Some 2,
           issued = [runtime hipMemcpy_nnz_A,
                     launch_nnz_compress_kernel (nnz_compress_variant 2 64 2),
                     runtime rocprim_reduce_size, runtime rocprim_reduce]\<rparr> 2"
proof -
  have f: "translation_faithful runtime_ok"
    by (simp add: translation_faithful_def runtime_ok_def hip_failed_def)
  have i: "ignores_pointer_mode example_nnz_template"
    by (simp add: ignores_pointer_mode_def example_nnz_template_def)
  have d: "rocsparse_nnz_impl runtime_ok example_nnz_template
            (Some (example_handle mode 64)) rocsparse_direction_row 2 2
            (Some general_descr) (Some [1, 0, 0, 1]) 2 (Some [9, 9]) (Some 7)
        = returned rocsparse_status_success (Some [1, 1]) (Some 2)
            [call_nnz_template, runtime rocprim_reduce_size, runtime rocprim_reduce,
             runtime (if mode = rocsparse_pointer_mode_device
                      then hipMemcpyAsync_total else hipMemcpy_total)]" for mode
    by (simp add: rocsparse_nnz_impl_def
        example_nnz_template_run [unfolded rocsparse_direction_row_def] nnz_reduce_def
        free_temp_and_return_def rocprim_reduce_plus_def int32_def general_descr_def
        example_handle_def runtime_ok_def hip_failed_def rocsparse_direction_row_def
        rocsparse_direction_column_def Let_def)
  have ch: "rocsparse_nnz_compress_template (\<lambda>x::int. real_of_int x) runtime_ok
            example_compress_kernel
            (Some (example_handle rocsparse_pointer_mode_host 64)) 2 (Some general_descr)
            (Some [5, 0, 7]) (Some [0, 1, 3]) (Some [9, 9]) (Some 7) 0
        = returned rocsparse_status_success (Some [1, 1]) (Some 2)
            [runtime hipMemcpy_nnz_A,
             launch_nnz_compress_kernel (nnz_compress_variant 2 64 2),
             runtime hipMalloc_total, runtime rocprim_reduce_size, runtime rocprim_reduce,
             runtime hipMemcpy_total, runtime hipFree_total]"
    by (simp add: rocsparse_nnz_compress_template_def nnz_compress_count_def
        nnz_compress_dispatch_def nnz_compress_reduce_def example_compress_kernel_run
        free_temp_and_return_def rocprim_reduce_plus_def int32_def general_descr_def
        example_handle_def runtime_ok_def hip_failed_def c_div_def Let_def numeral_2_eq_2)
  have cd: "rocsparse_nnz_compress_template (\<lambda>x::int. real_of_int x) runtime_ok
            example_compress_kernel
            (Some (example_handle rocsparse_pointer_mode_device 64)) 2 (Some general_descr)
            (Some [5, 0, 7]) (Some [0, 1, 3]) (Some [9, 9]) (Some 7) 0
        = returned rocsparse_status_success (Some [1, 1]) (Some 2)
            [runtime hipMemcpy_nnz_A,
             launch_nnz_compress_kernel (nnz_compress_variant 2 64 2),
             runtime rocprim_reduce_size, runtime rocprim_reduce]"
    by (simp add: rocsparse_nnz_compress_template_def nnz_compress_count_def
        nnz_compress_dispatch_def nnz_compress_reduce_def example_compress_kernel_run
        free_temp_and_return_def rocprim_reduce_plus_def int32_def general_descr_def
        example_handle_def runtime_ok_def hip_failed_def c_div_def Let_def numeral_2_eq_2)
  from totals_are_sums_of_counts [OF f, of example_nnz_template
      "Some (example_handle rocsparse_pointer_mode_host 64)" rocsparse_direction_row 2 2
      "Some general_descr" "Some [1, 0, 0, 1]" 2 "Some [9, 9]" "Some 7"
      "\<lambda>x::int. real_of_int x" example_compress_kernel
      "Some (example_handle rocsparse_pointer_mode_device 64)" 2 "Some general_descr"
      "Some [5, 0, 7]" "Some [0, 1, 3]" "Some [9, 9]" "Some 7" 0]
    d [of rocsparse_pointer_mode_host] cd
  have "total_is_sum \<lparr>nnz_status = rocsparse_status_success, nnz_per_row_out = Some [1, 1],
            nnz_total_out = Some 2,
            issued = [call_nnz_template, runtime rocprim_reduce_size, runtime rocprim_reduce,
             runtime hipMemcpy_total]\<rparr> 2"
    and "total_is_sum \<lparr>nnz_status = rocsparse_status_success, nnz_per_row_out = Some [1, 1],
            nnz_total_out = Some 2,
            issued = [runtime hipMemcpy_nnz_A,
             launch_nnz_compress_kernel (nnz_compress_variant 2 64 2),
             runtime rocprim_reduce_size, runtime rocprim_reduce]\<rparr> 2"
    by (simp_all add: returned_def rocsparse_direction_row_def)
  with f i d [of rocsparse_pointer_mode_host] d [of rocsparse_pointer_mode_device] ch cd
  show ?thesis by simp
qed

lemma example_nnz_template_full:
  assumes "0 \<le> m" and "m \<le> ld" and "0 \<le> n"
  shows "example_nnz_template h rocsparse_direction_row m n (replicate (nat n * nat ld) 1) ld pr
           = (rocsparse_status_success, replicate (nat m) n)"
proof -
  have full: "filter (\<lambda>j. replicate (nat n * nat ld) (1::int) ! (j * nat ld + i) \<noteq> 0) [0..<nat n]
                = [0..<nat n]" if i: "i < nat m" for i
  proof (rule filter_True, clarsimp)
    fix j assume j: "j < nat n"
    from i assms have "i < nat ld" by linarith
    then have "j * nat ld + i < Suc j * nat ld" by simp
    also from j have "\<dots> \<le> nat n * nat ld" by (intro mult_le_mono1) simp
    finally have "j * nat ld + i < nat n * nat ld" .
    then have "replicate (nat n * nat ld) (1::int) ! (j * nat ld + i) = 1" by (rule nth_replicate)
    moreover assume "replicate (nat n * nat ld) (1::int) ! (j * nat ld + i) = 0"
    ultimately show False by simp
  qed
  have "map (\<lambda>i. int (length (filter
              (\<lambda>j. replicate (nat n * nat ld) (1::int) ! (j * nat ld + i) \<noteq> 0) [0..<nat n])))
          [0..<nat m]
        = map (\<lambda>i. n) [0..<nat m]"
    using assms(3) by (intro map_cong refl) (simp add: full)
  also have "\<dots> = replicate (nat m) n" by (simp add: map_replicate_const)
  finally show ?thesis by (simp add: example_nnz_template_def)
qed

text \<open>
  The claim C3 as it is worded has the total equal to the sum of the counts. The size
  check admits a matrix of 65536 rows and 65536 columns; when all its entries are
  other than zero, each of the 65536 per-row counts is 65536 and their sum is
  4294967296, which is no \<open>rocsparse_int\<close>: the call succeeds and reports the total 0.
\<close>

theorem total_wraps_on_full_matrix:
  "rocsparse_nnz_impl runtime_ok example_nnz_template
     (Some (example_handle rocsparse_pointer_mode_host 64)) rocsparse_direction_row 65536 65536
     (Some general_descr) (Some full_dense_matrix) 65536 (Some (replicate 65536 0)) (Some 7)
   = returned rocsparse_status_success (Some (replicate 65536 65536)) (Some 0)
       [call_nnz_template, runtime rocprim_reduce_size, runtime rocprim_reduce,
        runtime hipMemcpy_total]
   \<and> sum_list (replicate 65536 (65536::int)) = 4294967296"
proof -
  have t: "example_nnz_template h rocsparse_direction_row 65536 65536 full_dense_matrix 65536 pr
             = (rocsparse_status_success, replicate (nat 65536) 65536)" for h pr
    unfolding full_dense_matrix_def by (rule example_nnz_template_full) simp_all
  have s: "sum_list (replicate 65536 (65536::int)) = 4294967296"
    by (simp add: sum_list_replicate)
  have "rocsparse_nnz_impl runtime_ok example_nnz_template
     (Some (example_handle rocsparse_pointer_mode_host 64)) rocsparse_direction_row 65536 65536
     (Some general_descr) (Some full_dense_matrix) 65536 (Some (replicate 65536 0)) (Some 7)
   = returned rocsparse_status_success (Some (replicate 65536 65536)) (Some 0)
       [call_nnz_template, runtime rocprim_reduce_size, runtime rocprim_reduce,
        runtime hipMemcpy_total]"
    by (simp add: rocsparse_nnz_impl_def t [unfolded rocsparse_direction_row_def] nnz_reduce_def
        free_temp_and_return_def rocprim_reduce_plus_def int32_def general_descr_def
        example_handle_def runtime_ok_def hip_failed_def rocsparse_direction_row_def
        rocsparse_direction_column_def Let_def sum_list_replicate)
  with s show ?thesis by simp
qed

section \<open>The permutation kernel\<close>

text \<open>
  The index of a lane is the position it takes. In a grid of blocks of \<open>BLOCKSIZE\<close>
  lanes, the position \<open>g\<close> is the index of the lane \<open>g mod BLOCKSIZE\<close> of the block
  \<open>g div BLOCKSIZE\<close>, and no two lanes of the grid have the same index.
\<close>

lemma lane_gid_covers:
  assumes "0 < BLOCKSIZE" and "0 \<le> g" and "g < 2147483648"
  shows "lane_gid BLOCKSIZE (nat g div BLOCKSIZE) (nat g mod BLOCKSIZE) = g"
proof -
  have "nat g div BLOCKSIZE * BLOCKSIZE + nat g mod BLOCKSIZE = nat g" by simp
  moreover from assms have "nat g mod 4294967296 = nat g" by simp
  ultimately have "lane_gid BLOCKSIZE (nat g div BLOCKSIZE) (nat g mod BLOCKSIZE)
      = int32 (int (nat g))"
    by (simp only: lane_gid_def)
  with assms show ?thesis by (simp add: int32_def)
qed

lemma int32_cases:
  assumes "0 \<le> x" and "x < 4294967296"
  shows "int32 x = (if x < 2147483648 then x else x - 4294967296)"
proof (cases "x < 2147483648")
  case True
  with assms show ?thesis by (simp add: int32_def mod_pos_pos_trivial)
next
  case False
  have "x + 2147483648 = (x - 2147483648) + 4294967296" by simp
  then have "(x + 2147483648) mod 4294967296 = ((x - 2147483648) + 4294967296) mod 4294967296"
    by (rule arg_cong)
  also have "\<dots> = (x - 2147483648) mod 4294967296" by (simp only: mod_add_self2)
  also from False assms have "\<dots> = x - 2147483648" by (simp add: mod_pos_pos_trivial)
  finally show ?thesis using False by (simp add: int32_def)
qed

lemma int32_inj:
  assumes "0 \<le> x" "x < 4294967296" "0 \<le> y" "y < 4294967296" "int32 x = int32 y"
  shows "x = y"
proof -
  from assms(5) int32_cases [OF assms(1,2)] int32_cases [OF assms(3,4)]
  have "(if x < 2147483648 then x else x - 4294967296)
      = (if y < 2147483648 then y else y - 4294967296)" by simp
  with assms(1-4) show ?thesis by (simp split: if_splits)
qed

lemma lane_gid_one_lane:
  assumes t: "t < BLOCKSIZE" "t' < BLOCKSIZE"
    and r: "b * BLOCKSIZE + t < 4294967296" "b' * BLOCKSIZE + t' < 4294967296"
    and eq: "lane_gid BLOCKSIZE b t = lane_gid BLOCKSIZE b' t'"
  shows "b = b' \<and> t = t'"
proof -
  from r have m: "(b * BLOCKSIZE + t) mod 4294967296 = b * BLOCKSIZE + t"
    "(b' * BLOCKSIZE + t') mod 4294967296 = b' * BLOCKSIZE + t'" by simp_all
  from eq have "int32 (int (b * BLOCKSIZE + t)) = int32 (int (b' * BLOCKSIZE + t'))"
    unfolding lane_gid_def m .
  moreover from r have "int (b * BLOCKSIZE + t) < 4294967296"
    "int (b' * BLOCKSIZE + t') < 4294967296" by linarith+
  moreover have "0 \<le> int (b * BLOCKSIZE + t)" "0 \<le> int (b' * BLOCKSIZE + t')"
    by (rule of_nat_0_le_iff)+
  ultimately have "int (b * BLOCKSIZE + t) = int (b' * BLOCKSIZE + t')"
    using int32_inj [of "int (b * BLOCKSIZE + t)" "int (b' * BLOCKSIZE + t')"] by blast
  then have e: "b * BLOCKSIZE + t = b' * BLOCKSIZE + t'" by (simp only: int_int_eq)
  from t have B: "0 < BLOCKSIZE" by simp
  with t have "(b * BLOCKSIZE + t) div BLOCKSIZE = b" "(b' * BLOCKSIZE + t') div BLOCKSIZE = b'"
    "(b * BLOCKSIZE + t) mod BLOCKSIZE = t" "(b' * BLOCKSIZE + t') mod BLOCKSIZE = t'"
    by simp_all
  with e have "b = b'" "t = t'" by simp_all
  then show ?thesis by simp
qed

text \<open>
  C6. A lane of \<open>csr2csc_permute_kernel\<close> whose index \<open>gid\<close> is at least \<open>nnz\<close>
  writes nothing: it leaves both output arrays as they are. A lane with
  \<open>0 \<le> gid < nnz\<close> writes \<open>out1[gid] = in1[map[gid]]\<close> and
  \<open>out2[gid] = in2[map[gid]]\<close> and nothing else, given that \<open>gid\<close> is inside the
  map and the output arrays and \<open>map[gid]\<close> inside the input arrays. Every position
  \<open>g\<close> with \<open>0 \<le> g < nnz\<close> is the index of a lane, the lane \<open>g mod BLOCKSIZE\<close>
  of the block \<open>g div BLOCKSIZE\<close>, and that lane writes \<open>out1[g]\<close> and
  \<open>out2[g]\<close>; and two lanes with the same index are the same lane: one lane for each
  non-zero.
\<close>

theorem csr2csc_permute_gather:
  "(lane_gid BLOCKSIZE hipBlockIdx_x hipThreadIdx_x \<ge> nnz \<longrightarrow>
      csr2csc_permute_kernel BLOCKSIZE hipBlockIdx_x hipThreadIdx_x nnz in1 in2 map_arr (out1, out2)
        = Inr (out1, out2))
   \<and> (0 \<le> lane_gid BLOCKSIZE hipBlockIdx_x hipThreadIdx_x
      \<and> lane_gid BLOCKSIZE hipBlockIdx_x hipThreadIdx_x < nnz
      \<and> gid = nat (lane_gid BLOCKSIZE hipBlockIdx_x hipThreadIdx_x)
      \<and> gid < length map_arr \<and> gid < length out1 \<and> gid < length out2
      \<and> 0 \<le> map_arr ! gid \<and> nat (map_arr ! gid) < length in1 \<and> nat (map_arr ! gid) < length in2
      \<longrightarrow>
      csr2csc_permute_kernel BLOCKSIZE hipBlockIdx_x hipThreadIdx_x nnz in1 in2 map_arr (out1, out2)
        = Inr (out1[gid := in1 ! nat (map_arr ! gid)], out2[gid := in2 ! nat (map_arr ! gid)]))
   \<and> (0 < BLOCKSIZE \<and> 0 \<le> g \<and> g < nnz \<and> nnz \<le> 2147483647
      \<longrightarrow>
      nat g mod BLOCKSIZE < BLOCKSIZE
      \<and> lane_gid BLOCKSIZE (nat g div BLOCKSIZE) (nat g mod BLOCKSIZE) = g
      \<and> (nat g < length map_arr \<and> nat g < length out1 \<and> nat g < length out2
         \<and> 0 \<le> map_arr ! nat g \<and> nat (map_arr ! nat g) < length in1
         \<and> nat (map_arr ! nat g) < length in2
         \<longrightarrow>
         csr2csc_permute_kernel BLOCKSIZE (nat g div BLOCKSIZE) (nat g mod BLOCKSIZE) nnz
             in1 in2 map_arr (out1, out2)
           = Inr (out1[nat g := in1 ! nat (map_arr ! nat g)],
                  out2[nat g := in2 ! nat (map_arr ! nat g)])))
   \<and> (hipThreadIdx_x < BLOCKSIZE \<and> t' < BLOCKSIZE
      \<and> hipBlockIdx_x * BLOCKSIZE + hipThreadIdx_x < 4294967296
      \<and> b' * BLOCKSIZE + t' < 4294967296
      \<and> lane_gid BLOCKSIZE hipBlockIdx_x hipThreadIdx_x = lane_gid BLOCKSIZE b' t'
      \<longrightarrow> hipBlockIdx_x = b' \<and> hipThreadIdx_x = t')"
proof -
  have AB: "(lane_gid BLOCKSIZE hipBlockIdx_x hipThreadIdx_x \<ge> nnz \<longrightarrow>
      csr2csc_permute_kernel BLOCKSIZE hipBlockIdx_x hipThreadIdx_x nnz in1 in2 map_arr (out1, out2)
        = Inr (out1, out2))
   \<and> (0 \<le> lane_gid BLOCKSIZE hipBlockIdx_x hipThreadIdx_x
      \<and> lane_gid BLOCKSIZE hipBlockIdx_x hipThreadIdx_x < nnz
      \<and> gid = nat (lane_gid BLOCKSIZE hipBlockIdx_x hipThreadIdx_x)
      \<and> gid < length map_arr \<and> gid < length out1 \<and> gid < length out2
      \<and> 0 \<le> map_arr ! gid \<and> nat (map_arr ! gid) < length in1 \<and> nat (map_arr ! gid) < length in2
      \<longrightarrow>
      csr2csc_permute_kernel BLOCKSIZE hipBlockIdx_x hipThreadIdx_x nnz in1 in2 map_arr (out1, out2)
        = Inr (out1[gid := in1 ! nat (map_arr ! gid)], out2[gid := in2 ! nat (map_arr ! gid)]))"
    by (auto simp: csr2csc_permute_kernel_def Let_def)
  have C: "0 < BLOCKSIZE \<and> 0 \<le> g \<and> g < nnz \<and> nnz \<le> 2147483647
      \<longrightarrow>
      nat g mod BLOCKSIZE < BLOCKSIZE
      \<and> lane_gid BLOCKSIZE (nat g div BLOCKSIZE) (nat g mod BLOCKSIZE) = g
      \<and> (nat g < length map_arr \<and> nat g < length out1 \<and> nat g < length out2
         \<and> 0 \<le> map_arr ! nat g \<and> nat (map_arr ! nat g) < length in1
         \<and> nat (map_arr ! nat g) < length in2
         \<longrightarrow>
         csr2csc_permute_kernel BLOCKSIZE (nat g div BLOCKSIZE) (nat g mod BLOCKSIZE) nnz
             in1 in2 map_arr (out1, out2)
           = Inr (out1[nat g := in1 ! nat (map_arr ! nat g)],
                  out2[nat g := in2 ! nat (map_arr ! nat g)]))"
  proof (intro impI)
    assume a: "0 < BLOCKSIZE \<and> 0 \<le> g \<and> g < nnz \<and> nnz \<le> 2147483647"
    then have "0 < BLOCKSIZE" "0 \<le> g" "g < 2147483648" by linarith+
    from lane_gid_covers [OF this]
    have l: "lane_gid BLOCKSIZE (nat g div BLOCKSIZE) (nat g mod BLOCKSIZE) = g" .
    with a show "nat g mod BLOCKSIZE < BLOCKSIZE
      \<and> lane_gid BLOCKSIZE (nat g div BLOCKSIZE) (nat g mod BLOCKSIZE) = g
      \<and> (nat g < length map_arr \<and> nat g < length out1 \<and> nat g < length out2
         \<and> 0 \<le> map_arr ! nat g \<and> nat (map_arr ! nat g) < length in1
         \<and> nat (map_arr ! nat g) < length in2
         \<longrightarrow>
         csr2csc_permute_kernel BLOCKSIZE (nat g div BLOCKSIZE) (nat g mod BLOCKSIZE) nnz
             in1 in2 map_arr (out1, out2)
           = Inr (out1[nat g := in1 ! nat (map_arr ! nat g)],
                  out2[nat g := in2 ! nat (map_arr ! nat g)]))"
      by (simp add: csr2csc_permute_kernel_def Let_def)
  qed
  have D: "hipThreadIdx_x < BLOCKSIZE \<and> t' < BLOCKSIZE
      \<and> hipBlockIdx_x * BLOCKSIZE + hipThreadIdx_x < 4294967296
      \<and> b' * BLOCKSIZE + t' < 4294967296
      \<and> lane_gid BLOCKSIZE hipBlockIdx_x hipThreadIdx_x = lane_gid BLOCKSIZE b' t'
      \<longrightarrow> hipBlockIdx_x = b' \<and> hipThreadIdx_x = t'"
    using lane_gid_one_lane [of hipThreadIdx_x BLOCKSIZE t' hipBlockIdx_x b'] by blast
  show ?thesis
    by (rule conjI [OF conjunct1 [OF AB] conjI [OF conjunct2 [OF AB] conjI [OF C D]]])
qed


theorem csr2csc_permute_gather_witness:
  "lane_gid 2 1 0 = 2
   \<and> csr2csc_permute_kernel 2 1 0 3 [10, 20, 30] [1.5, 2.5, 3.5 :: real] [2, 0, 1]
       ([0, 0, 0], [0, 0, 0])
     = Inr ([0, 0, 20], [0, 0, 2.5])
   \<and> csr2csc_permute_kernel 2 1 1 3 [10, 20, 30] [1.5, 2.5, 3.5 :: real] [2, 0, 1]
       ([0, 0, 0], [0, 0, 0])
     = Inr ([0, 0, 0], [0, 0, 0])"
proof -
  have g3: "lane_gid 2 (Suc 0) (Suc 0) = 3"
    by (simp add: lane_gid_def int32_def)
  have n: "nat 2 div 2 = Suc 0" "nat 2 mod 2 = 0" by simp_all
  from csr2csc_permute_gather [where BLOCKSIZE = 2 and hipBlockIdx_x = 1 and hipThreadIdx_x = 1
      and nnz = 3 and ?in1.0 = "[10, 20, 30]" and ?in2.0 = "[1.5, 2.5, 3.5 :: real]"
      and map_arr = "[2, 0, 1]" and ?out1.0 = "[0, 0, 0]" and ?out2.0 = "[0, 0, 0]" and g = 2]
  show ?thesis by (simp add: g3 n)
qed

section \<open>The quick return of the dense converter\<close>

text \<open>
  With a handle and a descriptor, sizes that pass the size check and \<open>m = 0\<close> or
  \<open>n = 0\<close>, \<open>rocsparse_csx2dense_impl\<close> returns success, issues nothing and leaves
  the dense array as it is, whatever the four array pointers are.
\<close>

lemma csx2dense_quick_return:
  assumes "0 \<le> m" and "0 \<le> n" and "m \<le> lda" and "m = 0 \<or> n = 0"
  shows "rocsparse_csx2dense_impl DIRA (Some h) m n (Some d) csx_val csx_row_col_ptr
           csx_col_row_ind A lda = csx_returned rocsparse_status_success A []"
  using assms by (auto simp: rocsparse_csx2dense_impl_def)

text \<open>
  C7 holds but for the descriptor. The call of \<open>log_bench\<close> at the head of
  \<open>rocsparse_csx2dense_impl\<close> evaluates \<open>descr->base\<close> before the size check,
  the quick return and the null check of \<open>descr\<close>: a call with a null descriptor
  reads through the null pointer, also when \<open>m = 0\<close> and \<open>n = 0\<close>.
\<close>

theorem csx2dense_null_descriptor:
  "rocsparse_csx2dense_impl rocsparse_direction_row
     (Some (example_handle rocsparse_pointer_mode_host 64)) 0 0 None
     (None :: real list option) None None None 0 = Inl NullDereference"
  by (simp add: rocsparse_csx2dense_impl_def)

section \<open>The dense converter fills the dense matrix\<close>

lemma scatter_Nil [simp]: "scatter q v [] A = A"
  by (simp add: scatter_def)

lemma scatter_Cons [simp]: "scatter q v (x # xs) A = scatter q v xs (A[q x := v x])"
  by (simp add: scatter_def)

lemma scatter_append [simp]: "scatter q v (xs @ ys) A = scatter q v ys (scatter q v xs A)"
  by (simp add: scatter_def)

lemma scatter_map: "scatter q v (map f xs) A = scatter (\<lambda>x. q (f x)) (\<lambda>x. v (f x)) xs A"
  by (induction xs arbitrary: A) simp_all

lemma length_scatter [simp]: "length (scatter q v xs A) = length A"
  by (induction xs arbitrary: A) simp_all

lemma scatter_untouched: "p \<notin> q ` set xs \<Longrightarrow> scatter q v xs A ! p = A ! p"
  by (induction xs arbitrary: A) auto

lemma scatter_written:
  assumes "\<exists>x\<in>set xs. q x = p \<and> v x = w" and "p < length A"
    and "\<forall>y\<in>set xs. q y = p \<longrightarrow> v y = w"
  shows "scatter q v xs A ! p = w"
  using assms
proof (induction xs arbitrary: A)
  case Nil
  then show ?case by simp
next
  case (Cons y ys)
  show ?case
  proof (cases "p \<in> q ` set ys")
    case True
    then obtain z where "z \<in> set ys" "q z = p" by auto
    with Cons.prems(3) have "\<exists>x\<in>set ys. q x = p \<and> v x = w" by auto
    moreover from Cons.prems(2) have "p < length (A[q y := v y])" by simp
    moreover from Cons.prems(3) have "\<forall>y\<in>set ys. q y = p \<longrightarrow> v y = w" by simp
    ultimately have "scatter q v ys (A[q y := v y]) ! p = w" by (rule Cons.IH)
    then show ?thesis by simp
  next
    case False
    with Cons.prems(1) have y: "q y = p" "v y = w" by auto
    from False have "scatter q v ys (A[q y := v y]) ! p = (A[q y := v y]) ! p"
      by (rule scatter_untouched)
    with y Cons.prems(2) show ?thesis by simp
  qed
qed

lemma fold_fault_pure:
  assumes "\<And>x s. x \<in> set xs \<Longrightarrow> length s = N \<Longrightarrow> f x s = Inr (g x s) \<and> length (g x s) = N"
    and "length s = N"
  shows "fold_fault f xs s = Inr (fold g xs s) \<and> length (fold g xs s) = N"
  using assms
proof (induction xs arbitrary: s)
  case Nil
  then show ?case by simp
next
  case (Cons x xs)
  from Cons.prems(1) [of x s] Cons.prems(2)
  have x: "f x s = Inr (g x s)" "length (g x s) = N" by simp_all
  have "fold_fault f xs (g x s) = Inr (fold g xs (g x s)) \<and> length (fold g xs (g x s)) = N"
    by (rule Cons.IH) (use Cons.prems(1) x(2) in auto)
  with x show ?case by simp
qed

lemma region_index:
  fixes i j m n ld :: int
  assumes "0 \<le> i" and "i < m" and "m \<le> ld" and "0 \<le> j" and "j < n"
  shows "0 \<le> j * ld + i" and "j * ld + i < (n - 1) * ld + m"
    and "(j * ld + i) mod ld = i" and "(j * ld + i) div ld = j"
proof -
  from assms have ld: "0 < ld" "i < ld" by linarith+
  from assms(4) ld(1) have "0 \<le> j * ld" by simp
  with assms(1) show "0 \<le> j * ld + i" by linarith
  from assms(5) have "j \<le> n - 1" by linarith
  with ld(1) have "j * ld \<le> (n - 1) * ld" by (intro mult_right_mono) linarith+
  with assms(2) show "j * ld + i < (n - 1) * ld + m" by linarith
  from ld assms(1) show "(j * ld + i) mod ld = i"
    by (simp add: mod_pos_pos_trivial)
  from ld assms(1) show "(j * ld + i) div ld = j"
    by (simp add: div_pos_pos_trivial)
qed

lemma region_index_inj:
  fixes i j i' j' m ld :: int
  assumes "0 \<le> i" "i < m" "0 \<le> i'" "i' < m" "m \<le> ld" "j * ld + i = j' * ld + i'"
  shows "i = i' \<and> j = j'"
proof -
  from assms have ld: "0 < ld" "i < ld" "i' < ld" by linarith+
  have a: "(j * ld + i) mod ld = i" "(j * ld + i) div ld = j"
    using ld assms(1) by (simp_all add: mod_pos_pos_trivial div_pos_pos_trivial)
  have b: "(j' * ld + i') mod ld = i'" "(j' * ld + i') div ld = j'"
    using ld assms(3) by (simp_all add: mod_pos_pos_trivial div_pos_pos_trivial)
  from a(1) b(1) have "i = i'" unfolding assms(6) by simp
  moreover from a(2) b(2) have "j = j'" unfolding assms(6) by simp
  ultimately show ?thesis by simp
qed

lemma scatter_region:
  fixes I J :: "'b \<Rightarrow> int" and V :: "'b \<Rightarrow> 'a" and m n ld :: int
  assumes m: "0 < m" "m \<le> ld"
    and bounds: "\<forall>y\<in>set XS. 0 \<le> I y \<and> I y < m \<and> 0 \<le> J y \<and> J y < n"
    and functional: "\<forall>y\<in>set XS. \<forall>z\<in>set XS. I y = I z \<and> J y = J z \<longrightarrow> V y = V z"
    and len: "(n - 1) * ld + m \<le> int (length A)"
  shows "\<forall>y\<in>set XS. scatter (\<lambda>y. nat (J y * ld + I y)) V XS A ! nat (J y * ld + I y) = V y"
    and "\<forall>i j. 0 \<le> i \<and> i < m \<and> 0 \<le> j \<and> j < n \<and> (\<forall>y\<in>set XS. \<not> (I y = i \<and> J y = j))
           \<longrightarrow> scatter (\<lambda>y. nat (J y * ld + I y)) V XS A ! nat (j * ld + i) = A ! nat (j * ld + i)"
    and "\<forall>p<length A. \<not> (int p mod ld < m \<and> int p div ld < n)
           \<longrightarrow> scatter (\<lambda>y. nat (J y * ld + I y)) V XS A ! p = A ! p"
proof -
  let ?q = "\<lambda>y. nat (J y * ld + I y)"
  have same: "I y = i \<and> J y = j"
    if "y \<in> set XS" "0 \<le> i" "i < m" "0 \<le> j" "?q y = nat (j * ld + i)" for y i j
  proof -
    from bounds that(1) have b: "0 \<le> I y" "I y < m" "0 \<le> J y" "J y < n" by auto
    from region_index(1) [OF b(1,2) m(2) b(3,4)] have "0 \<le> J y * ld + I y" .
    moreover from that m have "0 \<le> j * ld + i" by simp
    ultimately have "J y * ld + I y = j * ld + i" using that(5) by simp
    from region_index_inj [OF b(1,2) that(2,3) m(2) this] show ?thesis .
  qed
  show "\<forall>y\<in>set XS. scatter ?q V XS A ! ?q y = V y"
  proof
    fix y assume y: "y \<in> set XS"
    from bounds y have b: "0 \<le> I y" "I y < m" "0 \<le> J y" "J y < n" by auto
    from region_index(1,2) [OF b(1,2) m(2) b(3,4)] len have "?q y < length A" by simp
    moreover have "\<exists>x\<in>set XS. ?q x = ?q y \<and> V x = V y" using y by auto
    moreover have "\<forall>z\<in>set XS. ?q z = ?q y \<longrightarrow> V z = V y"
    proof (intro ballI impI)
      fix z assume z: "z \<in> set XS" "?q z = ?q y"
      from same [OF z(1) b(1,2,3) z(2)] have "I z = I y \<and> J z = J y" .
      with functional z(1) y show "V z = V y" by blast
    qed
    ultimately show "scatter ?q V XS A ! ?q y = V y" by (intro scatter_written)
  qed
  show "\<forall>i j. 0 \<le> i \<and> i < m \<and> 0 \<le> j \<and> j < n \<and> (\<forall>y\<in>set XS. \<not> (I y = i \<and> J y = j))
           \<longrightarrow> scatter ?q V XS A ! nat (j * ld + i) = A ! nat (j * ld + i)"
  proof (intro allI impI)
    fix i j
    assume a: "0 \<le> i \<and> i < m \<and> 0 \<le> j \<and> j < n \<and> (\<forall>y\<in>set XS. \<not> (I y = i \<and> J y = j))"
    have "nat (j * ld + i) \<notin> ?q ` set XS"
    proof
      assume "nat (j * ld + i) \<in> ?q ` set XS"
      then obtain y where y: "y \<in> set XS" "?q y = nat (j * ld + i)" by auto
      from a have "0 \<le> i" "i < m" "0 \<le> j" by simp_all
      from same [OF y(1) this y(2)] have "I y = i \<and> J y = j" .
      with a y(1) show False by blast
    qed
    then show "scatter ?q V XS A ! nat (j * ld + i) = A ! nat (j * ld + i)"
      by (rule scatter_untouched)
  qed
  show "\<forall>p<length A. \<not> (int p mod ld < m \<and> int p div ld < n)
           \<longrightarrow> scatter ?q V XS A ! p = A ! p"
  proof (intro allI impI)
    fix p assume p: "p < length A" "\<not> (int p mod ld < m \<and> int p div ld < n)"
    have "p \<notin> ?q ` set XS"
    proof
      assume "p \<in> ?q ` set XS"
      then obtain y where y: "y \<in> set XS" "p = ?q y" by auto
      from bounds y(1) have b: "0 \<le> I y" "I y < m" "0 \<le> J y" "J y < n" by auto
      from region_index [OF b(1,2) m(2) b(3,4)] y(2)
      have "int p mod ld = I y" "int p div ld = J y" by simp_all
      with b p(2) show False by simp
    qed
    then show "scatter ?q V XS A ! p = A ! p" by (rule scatter_untouched)
  qed
qed

lemma fold_scatter_concat:
  "fold (\<lambda>x A. scatter (q x) v (ks x) A) xs A
     = scatter (\<lambda>y. q (fst y) (snd y)) (\<lambda>y. v (snd y))
         (concat (map (\<lambda>x. map (Pair x) (ks x)) xs)) A"
  by (induction xs arbitrary: A) (simp_all add: scatter_map)

lemma memset2D_region:
  assumes "0 < m" and "0 < n" and "m \<le> lda" and "(n - 1) * lda + m \<le> int (length A)"
  shows "memset2D A lda m n
           = Inr (map (\<lambda>p. if int p mod lda < m \<and> int p div lda < n then 0 else A ! p)
                    [0..<length A])"
  using assms by (simp add: memset2D_def)

lemma csx_wellformed_line:
  assumes wf: "csx_wellformed dir base m n val ptr ind"
    and major: "0 \<le> major" "major < (if dir = rocsparse_direction_row then m else n)"
  shows "nat major + 1 < length ptr"
    and "\<forall>k\<in>set (csx_line_range base ptr major).
           0 \<le> k \<and> nat k < length ind \<and> nat k < length val \<and>
           0 \<le> ind ! nat k - base \<and>
           ind ! nat k - base < (if dir = rocsparse_direction_row then n else m)"
    and "inj_on (\<lambda>k. ind ! nat k) (set (csx_line_range base ptr major))"
proof -
  let ?majors = "if dir = rocsparse_direction_row then m else n"
  from major have mem: "major \<in> set [0..?majors - 1]" by simp
  from wf have len: "nat ?majors < length ptr"
    and all: "\<forall>major\<in>set [0..?majors - 1].
        (\<forall>k\<in>set (csx_line_range base ptr major).
            0 \<le> k \<and> nat k < length ind \<and> nat k < length val \<and>
            base \<le> ind ! nat k \<and>
            ind ! nat k < base + (if dir = rocsparse_direction_row then n else m)) \<and>
        distinct (map (\<lambda>k. ind ! nat k) (csx_line_range base ptr major))"
    unfolding csx_wellformed_def Let_def list_all_iff by blast+
  from len major show "nat major + 1 < length ptr" by linarith
  from all mem have l: "\<forall>k\<in>set (csx_line_range base ptr major).
            0 \<le> k \<and> nat k < length ind \<and> nat k < length val \<and>
            base \<le> ind ! nat k \<and>
            ind ! nat k < base + (if dir = rocsparse_direction_row then n else m)"
    and d: "distinct (map (\<lambda>k. ind ! nat k) (csx_line_range base ptr major))"
    by blast+
  from l show "\<forall>k\<in>set (csx_line_range base ptr major).
           0 \<le> k \<and> nat k < length ind \<and> nat k < length val \<and>
           0 \<le> ind ! nat k - base \<and>
           ind ! nat k - base < (if dir = rocsparse_direction_row then n else m)"
    by (intro ballI) (auto split: if_splits)
  from d show "inj_on (\<lambda>k. ind ! nat k) (set (csx_line_range base ptr major))"
    by (simp add: distinct_map)
qed

lemma csx2dense_line_scatter:
  fixes val :: "'a list" and A :: "'a list"
  assumes "0 \<le> major" and "nat major + 1 < length ptr"
    and "\<forall>k\<in>set (csx_line_range base ptr major).
           0 \<le> k \<and> nat k < length ind \<and> nat k < length val \<and>
           0 \<le> dense_index dir ld major (ind ! nat k - base) \<and>
           nat (dense_index dir ld major (ind ! nat k - base)) < N"
    and "length A = N"
  shows "csx2dense_line dir base val ptr ind ld major A
           = Inr (scatter (\<lambda>k. nat (dense_index dir ld major (ind ! nat k - base)))
                    (\<lambda>k. val ! nat k) (csx_line_range base ptr major) A)
         \<and> length (scatter (\<lambda>k. nat (dense_index dir ld major (ind ! nat k - base)))
                    (\<lambda>k. val ! nat k) (csx_line_range base ptr major) A) = N"
proof -
  let ?g = "\<lambda>k A. A[nat (dense_index dir ld major (ind ! nat k - base)) := val ! nat k]"
  have "fold_fault (csx2dense_entry dir base val ind ld major) (csx_line_range base ptr major) A
          = Inr (fold ?g (csx_line_range base ptr major) A)
        \<and> length (fold ?g (csx_line_range base ptr major) A) = N"
  proof (rule fold_fault_pure)
    fix k :: int and s :: "'a list"
    assume "k \<in> set (csx_line_range base ptr major)" and "length s = N"
    with assms(3) show "csx2dense_entry dir base val ind ld major k s = Inr (?g k s)
                          \<and> length (?g k s) = N"
      by (simp add: csx2dense_entry_def Let_def)
  qed (rule assms(4))
  with assms(1,2) show ?thesis
    by (simp add: csx2dense_line_def scatter_def)
qed

lemma dense_index_region:
  assumes dir: "dir = rocsparse_direction_row \<or> dir = rocsparse_direction_column"
    and major: "0 \<le> major" "major < (if dir = rocsparse_direction_row then m else n)"
    and minor: "0 \<le> minor" "minor < (if dir = rocsparse_direction_row then n else m)"
  shows "\<exists>i j. dense_index dir ld major minor = j * ld + i \<and> 0 \<le> i \<and> i < m \<and> 0 \<le> j \<and> j < n
           \<and> (if dir = rocsparse_direction_row then i = major \<and> j = minor
               else i = minor \<and> j = major)"
  using assms by (auto simp: dense_index_def)

lemma csx_entries_iff:
  "y \<in> set (csx_entries dir base m n ptr) \<longleftrightarrow>
     0 \<le> fst y \<and> fst y < (if dir = rocsparse_direction_row then m else n) \<and>
     snd y \<in> set (csx_line_range base ptr (fst y))"
  by (cases y) (auto simp: csx_entries_def)

lemma csx2dense_kernel_scatter:
  fixes val :: "'a list" and A :: "'a list"
  assumes dir: "dir = rocsparse_direction_row \<or> dir = rocsparse_direction_column"
    and size: "0 < m" "0 < n" "m \<le> ld"
    and wf: "csx_wellformed dir base m n val ptr ind"
    and len: "(n - 1) * ld + m \<le> int (length A)"
  shows "csx2dense_kernel dir base m n val ptr ind A ld
           = Inr (scatter (\<lambda>y. nat (dense_index dir ld (fst y) (ind ! nat (snd y) - base)))
                    (\<lambda>y. val ! nat (snd y)) (csx_entries dir base m n ptr) A)"
proof -
  let ?majors = "if dir = rocsparse_direction_row then m else n"
  let ?g = "\<lambda>major A. scatter (\<lambda>k. nat (dense_index dir ld major (ind ! nat k - base)))
                          (\<lambda>k. val ! nat k) (csx_line_range base ptr major) A"
  have "fold_fault (csx2dense_line dir base val ptr ind ld) [0..?majors - 1] A
          = Inr (fold ?g [0..?majors - 1] A)
        \<and> length (fold ?g [0..?majors - 1] A) = length A"
  proof (rule fold_fault_pure)
    fix major :: int and s :: "'a list"
    assume "major \<in> set [0..?majors - 1]" and s: "length s = length A"
    then have mj: "0 \<le> major" "major < ?majors" by simp_all
    note l = csx_wellformed_line [OF wf mj]
    have "\<forall>k\<in>set (csx_line_range base ptr major).
           0 \<le> k \<and> nat k < length ind \<and> nat k < length val \<and>
           0 \<le> dense_index dir ld major (ind ! nat k - base) \<and>
           nat (dense_index dir ld major (ind ! nat k - base)) < length A"
    proof
      fix k assume k: "k \<in> set (csx_line_range base ptr major)"
      with l(2) have b: "0 \<le> k" "nat k < length ind" "nat k < length val"
        "0 \<le> ind ! nat k - base"
        "ind ! nat k - base < (if dir = rocsparse_direction_row then n else m)"
        by blast+
      from dense_index_region [OF dir mj b(4,5)] obtain i j where
        ij: "dense_index dir ld major (ind ! nat k - base) = j * ld + i"
        "0 \<le> i" "i < m" "0 \<le> j" "j < n" by blast
      from region_index(1,2) [OF ij(2,3) size(3) ij(4,5)] len
      have "0 \<le> j * ld + i" "nat (j * ld + i) < length A" by linarith+
      with b ij(1) show "0 \<le> k \<and> nat k < length ind \<and> nat k < length val \<and>
           0 \<le> dense_index dir ld major (ind ! nat k - base) \<and>
           nat (dense_index dir ld major (ind ! nat k - base)) < length A"
        by simp
    qed
    from csx2dense_line_scatter [OF mj(1) l(1) this s]
    show "csx2dense_line dir base val ptr ind ld major s = Inr (?g major s)
            \<and> length (?g major s) = length A" .
  qed simp
  then show ?thesis
    by (simp add: csx2dense_kernel_def csx_entries_def
        fold_scatter_concat [where q = "\<lambda>major k. nat (dense_index dir ld major (ind ! nat k - base))"
          and v = "\<lambda>k. val ! nat k" and ks = "csx_line_range base ptr"])
qed

lemma csx_scatter_values:
  fixes val :: "'a::zero list" and A :: "'a list"
  assumes dir: "dir = rocsparse_direction_row \<or> dir = rocsparse_direction_column"
    and size: "0 < m" "0 < n" "m \<le> ld"
    and wf: "csx_wellformed dir base m n val ptr ind"
    and len: "(n - 1) * ld + m \<le> int (length A)"
    and zero: "\<forall>i j. 0 \<le> i \<and> i < m \<and> 0 \<le> j \<and> j < n \<longrightarrow> A ! nat (j * ld + i) = 0"
  defines "A' \<equiv> scatter (\<lambda>y. nat (dense_index dir ld (fst y) (ind ! nat (snd y) - base)))
                    (\<lambda>y. val ! nat (snd y)) (csx_entries dir base m n ptr) A"
  shows "\<forall>i j. 0 \<le> i \<and> i < m \<and> 0 \<le> j \<and> j < n
           \<longrightarrow> A' ! nat (j * ld + i) = csx_value dir base val ptr ind i j"
    and "\<forall>p<length A. \<not> (int p mod ld < m \<and> int p div ld < n) \<longrightarrow> A' ! p = A ! p"
proof -
  let ?XS = "csx_entries dir base m n ptr"
  let ?minor = "\<lambda>y. ind ! nat (snd y) - base"
  define I where "I = (\<lambda>y::int \<times> int. if dir = rocsparse_direction_row then fst y else ?minor y)"
  define J where "J = (\<lambda>y::int \<times> int. if dir = rocsparse_direction_row then ?minor y else fst y)"
  let ?V = "\<lambda>y::int \<times> int. val ! nat (snd y)"
  have Q: "(\<lambda>y. nat (dense_index dir ld (fst y) (ind ! nat (snd y) - base)))
             = (\<lambda>y. nat (J y * ld + I y))"
    by (rule ext) (simp add: dense_index_def I_def J_def)
  have A': "A' = scatter (\<lambda>y. nat (J y * ld + I y)) ?V ?XS A"
    unfolding A'_def Q ..
  have line: "0 \<le> fst y \<and> fst y < (if dir = rocsparse_direction_row then m else n)
      \<and> snd y \<in> set (csx_line_range base ptr (fst y))
      \<and> 0 \<le> ?minor y \<and> ?minor y < (if dir = rocsparse_direction_row then n else m)"
    if "y \<in> set ?XS" for y
  proof -
    from that have y: "0 \<le> fst y" "fst y < (if dir = rocsparse_direction_row then m else n)"
      "snd y \<in> set (csx_line_range base ptr (fst y))"
      by (simp_all add: csx_entries_iff)
    from csx_wellformed_line(2) [OF wf y(1,2)] y(3) show ?thesis using y by blast
  qed
  have bounds: "\<forall>y\<in>set ?XS. 0 \<le> I y \<and> I y < m \<and> 0 \<le> J y \<and> J y < n"
  proof
    fix y assume "y \<in> set ?XS"
    from line [OF this] show "0 \<le> I y \<and> I y < m \<and> 0 \<le> J y \<and> J y < n"
      by (cases "dir = rocsparse_direction_row") (simp_all add: I_def J_def)
  qed
  have same: "y = z" if "y \<in> set ?XS" "z \<in> set ?XS" "I y = I z \<and> J y = J z" for y z
  proof -
    from that(3) have mj: "fst y = fst z" and mn: "ind ! nat (snd y) = ind ! nat (snd z)"
      by (cases "dir = rocsparse_direction_row"; simp add: I_def J_def)+
    from line [OF that(1)] line [OF that(2)] mj
    have in_line: "snd y \<in> set (csx_line_range base ptr (fst y))"
      "snd z \<in> set (csx_line_range base ptr (fst y))"
      and y: "0 \<le> fst y" "fst y < (if dir = rocsparse_direction_row then m else n)"
      by simp_all
    from csx_wellformed_line(3) [OF wf y] in_line mn have "snd y = snd z"
      by (auto dest: inj_onD)
    with mj show "y = z" by (simp add: prod_eq_iff)
  qed
  then have functional: "\<forall>y\<in>set ?XS. \<forall>z\<in>set ?XS. I y = I z \<and> J y = J z \<longrightarrow> ?V y = ?V z"
    by blast
  note R = scatter_region [OF size(1,3) bounds functional len]
  show "\<forall>p<length A. \<not> (int p mod ld < m \<and> int p div ld < n) \<longrightarrow> A' ! p = A ! p"
    unfolding A' by (rule R(3))
  show "\<forall>i j. 0 \<le> i \<and> i < m \<and> 0 \<le> j \<and> j < n
           \<longrightarrow> A' ! nat (j * ld + i) = csx_value dir base val ptr ind i j"
  proof (intro allI impI)
    fix i j assume ij: "0 \<le> i \<and> i < m \<and> 0 \<le> j \<and> j < n"
    define major where "major = (if dir = rocsparse_direction_row then i else j)"
    define minor where "minor = (if dir = rocsparse_direction_row then j else i)"
    have v: "csx_value dir base val ptr ind i j = csx_entry_at base val ptr ind major minor"
      by (simp add: csx_value_def major_def minor_def)
    have mj: "0 \<le> major" "major < (if dir = rocsparse_direction_row then m else n)"
      using ij by (simp_all add: major_def)
    show "A' ! nat (j * ld + i) = csx_value dir base val ptr ind i j"
    proof (cases "filter (\<lambda>k. ind ! nat k - base = minor) (csx_line_range base ptr major)")
      case Nil
      then have none: "\<forall>k\<in>set (csx_line_range base ptr major). ind ! nat k - base \<noteq> minor"
        by (simp add: filter_empty_conv)
      have "\<forall>y\<in>set ?XS. \<not> (I y = i \<and> J y = j)"
      proof (intro ballI notI)
        fix y assume y: "y \<in> set ?XS" "I y = i \<and> J y = j"
        then have "fst y = major" "?minor y = minor"
          by (cases "dir = rocsparse_direction_row"; simp add: I_def J_def major_def minor_def)+
        with line [OF y(1)] none show False by auto
      qed
      with R(2) ij have "A' ! nat (j * ld + i) = A ! nat (j * ld + i)"
        unfolding A' by blast
      with zero ij Nil show ?thesis by (simp add: v csx_entry_at_def)
    next
      case (Cons k ks)
      then have "k \<in> set (filter (\<lambda>k. ind ! nat k - base = minor) (csx_line_range base ptr major))"
        by simp
      then have k: "k \<in> set (csx_line_range base ptr major)" "ind ! nat k - base = minor"
        by simp_all
      with mj have y: "(major, k) \<in> set ?XS" by (simp add: csx_entries_iff)
      have IJ: "I (major, k) = i" "J (major, k) = j"
        using k(2) by (cases "dir = rocsparse_direction_row"; simp add: I_def J_def major_def minor_def)+
      from R(1) y have "A' ! nat (J (major, k) * ld + I (major, k)) = val ! nat k"
        unfolding A' by fastforce
      with IJ Cons show ?thesis by (simp add: v csx_entry_at_def)
    qed
  qed
qed

text \<open>
  C4. Take a CSR matrix (row direction) or a CSC matrix (column direction) that is
  well formed, with \<open>m > 0\<close>, \<open>n > 0\<close>, a descriptor of the general type, and a dense
  array that holds \<open>n\<close> columns of \<open>m\<close> entries, \<open>lda \<ge> m\<close> apart. Then
  \<open>rocsparse_csx2dense_impl\<close> returns success, having issued the zero fill of the
  \<open>m\<close> by \<open>n\<close> region first and the scatter kernel second. Afterwards the dense
  entry of row \<open>i\<close> and column \<open>j\<close>, at \<open>j * lda + i\<close>, is the value the compressed
  matrix stores at that coordinate, and 0 where it stores none; the entries of the
  array outside the region are as they were. The witness is the 2 by 2 identity in
  CSR with base 0 and \<open>lda = 2\<close>: the dense array becomes \<open>[1, 0, 0, 1]\<close>.
\<close>

theorem csx2dense_fills_dense_matrix:
  fixes val :: "'a::zero list" and A :: "'a list"
  assumes dir: "dir = rocsparse_direction_row \<or> dir = rocsparse_direction_column"
    and size: "0 < m" "0 < n" "m \<le> lda"
    and gen: "descr_type d = rocsparse_matrix_type_general"
    and wf: "csx_wellformed dir (index_base_value (descr_base d)) m n val ptr ind"
    and len: "(n - 1) * lda + m \<le> int (length A)"
  shows "\<exists>A'. rocsparse_csx2dense_impl dir (Some h) m n (Some d) (Some val) (Some ptr) (Some ind)
                 (Some A) lda
               = csx_returned rocsparse_status_success (Some A')
                   [hipMemset2DAsync lda m n,
                    launch_csx2dense_kernel dir
                      (int32 (c_div (int32 ((if dir = rocsparse_direction_row then m else n) - 1)) 16
                              + 1))
                      (64 * 16)]
            \<and> length A' = length A
            \<and> (\<forall>i j. 0 \<le> i \<and> i < m \<and> 0 \<le> j \<and> j < n
                  \<longrightarrow> A' ! nat (j * lda + i)
                      = csx_value dir (index_base_value (descr_base d)) val ptr ind i j)
            \<and> (\<forall>p<length A. \<not> (int p mod lda < m \<and> int p div lda < n) \<longrightarrow> A' ! p = A ! p)"
proof -
  let ?base = "index_base_value (descr_base d)"
  define A0 where "A0 = map (\<lambda>p. if int p mod lda < m \<and> int p div lda < n then 0 else A ! p)
                          [0..<length A]"
  have fill: "memset2D A lda m n = Inr A0"
    unfolding A0_def by (rule memset2D_region [OF size len])
  have l0: "length A0 = length A" by (simp add: A0_def)
  have A0: "A0 ! p = (if int p mod lda < m \<and> int p div lda < n then 0 else A ! p)"
    if "p < length A" for p
    using that by (simp add: A0_def)
  have zero: "\<forall>i j. 0 \<le> i \<and> i < m \<and> 0 \<le> j \<and> j < n \<longrightarrow> A0 ! nat (j * lda + i) = 0"
  proof (intro allI impI)
    fix i j assume "0 \<le> i \<and> i < m \<and> 0 \<le> j \<and> j < n"
    then have ij: "0 \<le> i" "i < m" "0 \<le> j" "j < n" by simp_all
    note r = region_index [OF ij(1,2) size(3) ij(3,4)]
    from r(1,2) len have "nat (j * lda + i) < length A" by linarith
    from A0 [OF this] r(1,3,4) ij show "A0 ! nat (j * lda + i) = 0" by simp
  qed
  define A' where "A' = scatter (\<lambda>y. nat (dense_index dir lda (fst y) (ind ! nat (snd y) - ?base)))
                    (\<lambda>y. val ! nat (snd y)) (csx_entries dir ?base m n ptr) A0"
  from len l0 have len0: "(n - 1) * lda + m \<le> int (length A0)" by simp
  have k: "csx2dense_kernel dir ?base m n val ptr ind A0 lda = Inr A'"
    unfolding A'_def by (rule csx2dense_kernel_scatter [OF dir size wf len0])
  note v = csx_scatter_values [OF dir size wf len0 zero, folded A'_def]
  have run: "rocsparse_csx2dense_impl dir (Some h) m n (Some d) (Some val) (Some ptr) (Some ind)
                 (Some A) lda
               = csx_returned rocsparse_status_success (Some A')
                   [hipMemset2DAsync lda m n,
                    launch_csx2dense_kernel dir
                      (int32 (c_div (int32 ((if dir = rocsparse_direction_row then m else n) - 1)) 16
                              + 1))
                      (64 * 16)]"
  proof (cases "dir = rocsparse_direction_row")
    case True
    with size gen fill k show ?thesis
      by (simp add: rocsparse_csx2dense_impl_def rocsparse_csx2dense_template_def Let_def)
  next
    case False
    with dir have "dir = rocsparse_direction_column" by simp
    with False size gen fill k show ?thesis
      by (simp add: rocsparse_csx2dense_impl_def rocsparse_csx2dense_template_def Let_def)
  qed
  have "length A' = length A" by (simp add: A'_def l0)
  moreover have "\<forall>p<length A. \<not> (int p mod lda < m \<and> int p div lda < n) \<longrightarrow> A' ! p = A ! p"
  proof (intro allI impI)
    fix p assume p: "p < length A" "\<not> (int p mod lda < m \<and> int p div lda < n)"
    with v(2) l0 have "A' ! p = A0 ! p" by simp
    with A0 [OF p(1)] p(2) show "A' ! p = A ! p" by simp
  qed
  ultimately show ?thesis using run v(1) by blast
qed

lemma identity_wellformed:
  "csx_wellformed rocsparse_direction_row 0 2 2 [1, 1 :: real] [0, 1, 2] [0, 1]"
  by code_simp

lemma identity_values:
  "csx_value rocsparse_direction_row 0 [1, 1 :: real] [0, 1, 2] [0, 1] 0 0 = 1"
  "csx_value rocsparse_direction_row 0 [1, 1 :: real] [0, 1, 2] [0, 1] 1 0 = 0"
  "csx_value rocsparse_direction_row 0 [1, 1 :: real] [0, 1, 2] [0, 1] 0 1 = 0"
  "csx_value rocsparse_direction_row 0 [1, 1 :: real] [0, 1, 2] [0, 1] 1 1 = 1"
  by code_simp+

theorem csx2dense_fills_dense_matrix_witness:
  "rocsparse_csx2dense_impl rocsparse_direction_row
     (Some (example_handle rocsparse_pointer_mode_host 64)) 2 2 (Some general_descr)
     (Some [1, 1 :: real]) (Some [0, 1, 2]) (Some [0, 1]) (Some [7, 7, 7, 7]) 2
   = csx_returned rocsparse_status_success (Some [1, 0, 0, 1])
       [hipMemset2DAsync 2 2 2, launch_csx2dense_kernel rocsparse_direction_row 1 1024]"
proof -
  have b: "index_base_value (descr_base general_descr) = 0"
    by (simp add: general_descr_def index_base_value_def)
  have g: "descr_type general_descr = rocsparse_matrix_type_general"
    by (simp add: general_descr_def)
  have wf: "csx_wellformed rocsparse_direction_row (index_base_value (descr_base general_descr))
              2 2 [1, 1 :: real] [0, 1, 2] [0, 1]"
    unfolding b by (rule identity_wellformed)
  have r1: "rocsparse_direction_row = rocsparse_direction_row
              \<or> rocsparse_direction_row = rocsparse_direction_column" by simp
  have r2: "(0::int) < 2" and r3: "(2::int) \<le> 2"
    and r4: "(2 - 1) * 2 + 2 \<le> int (length [7, 7, 7, 7 :: real])" by simp_all
  from csx2dense_fills_dense_matrix [OF r1 r2 r2 r3 g wf r4,
      of "example_handle rocsparse_pointer_mode_host 64"]
  obtain A' where run: "rocsparse_csx2dense_impl rocsparse_direction_row
     (Some (example_handle rocsparse_pointer_mode_host 64)) 2 2 (Some general_descr)
     (Some [1, 1 :: real]) (Some [0, 1, 2]) (Some [0, 1]) (Some [7, 7, 7, 7]) 2
   = csx_returned rocsparse_status_success (Some A')
       [hipMemset2DAsync 2 2 2,
        launch_csx2dense_kernel rocsparse_direction_row
          (int32 (c_div (int32 ((if rocsparse_direction_row = rocsparse_direction_row
                                  then 2 else 2) - 1)) 16 + 1))
          (64 * 16)]"
    and l: "length A' = length [7, 7, 7, 7 :: real]"
    and v: "\<forall>i j. 0 \<le> i \<and> i < 2 \<and> 0 \<le> j \<and> j < 2
              \<longrightarrow> A' ! nat (j * 2 + i)
                  = csx_value rocsparse_direction_row
                      (index_base_value (descr_base general_descr))
                      [1, 1 :: real] [0, 1, 2] [0, 1] i j"
    by blast
  from v [rule_format, of 0 0] have e0: "A' ! 0 = 1"
    by (simp add: b identity_values)
  from v [rule_format, of 1 0] have e1: "A' ! 1 = 0"
    by (simp add: b identity_values)
  from v [rule_format, of 0 1] have e2: "A' ! 2 = 0"
    by (simp add: b identity_values)
  from v [rule_format, of 1 1] have e3: "A' ! 3 = 1"
    by (simp add: b identity_values)
  from l obtain a0 a1 a2 a3 where "A' = [a0, a1, a2, a3]"
    by (auto simp: eval_nat_numeral length_Suc_conv)
  with e0 e1 e2 e3 have "A' = [1, 0, 0, 1]"
    by (simp add: numeral_2_eq_2 numeral_3_eq_3)
  with run show ?thesis by (simp add: int32_def c_div_def)
qed

end
